theory Spec2Isabelle
  imports
    Complex_Main
    "HOL-Library.Char_ord"
    "HOL-Library.List_Lexorder"
    "HOL-Library.Product_Lexorder"
    "HOL-Library.Multiset"
begin

section \<open>The e-commerce agent (Ecommerce/agent.py): cart, pricing and catalogue lookup\<close>

text \<open>
  A shallow embedding of \<^verbatim>\<open>agent.py\<close>. The module keeps two globals, \<^verbatim>\<open>carrito\<close> and
  \<^verbatim>\<open>historial_busquedas\<close>; every tool function is modelled as a function from the
  globals (and its arguments) to the returned dictionary and the new globals. The calls of
  the logger have no effect on either and are left out.

  Conventions of the model.
  \<^item> A Python \<^verbatim>\<open>str\<close> is a \<open>string\<close> whose characters are the code points
    U+0000 to U+00FF; text with other code points is outside the model. Strings are
    ordered as Python orders them: by code points, lexicographically.
  \<^item> Amounts of money (Python \<^verbatim>\<open>float\<close>, and the \<^verbatim>\<open>int\<close> prices of the catalogue)
    are exact rationals: the rounding of binary floating point is not modelled.
  \<^item> Arguments have the types of the signatures: \<^verbatim>\<open>cantidad: int\<close> is an \<open>int\<close>
    (so \<^verbatim>\<open>isinstance(cantidad, int)\<close> holds), \<^verbatim>\<open>Optional[int]\<close> is an \<open>int option\<close>.
  \<^item> Names are those of the source. Where a name is taken already, it has a suffix:
    the field \<^verbatim>\<open>id\<close> of a product is \<open>id_p\<close>, the field \<^verbatim>\<open>nombre\<close> of a cart line is
    \<open>item_nombre\<close>, and a parameter named like a field (\<^verbatim>\<open>cantidad\<close>, \<^verbatim>\<open>nombre\<close>,
    \<^verbatim>\<open>categoria\<close>) is \<open>cantidad_n\<close>, \<open>cantidad_q\<close>, \<open>nombre_q\<close>, \<open>categoria_q\<close>.
\<close>

subsection \<open>Strings: \<^verbatim>\<open>str.strip\<close>, \<^verbatim>\<open>str.lower\<close>, \<^verbatim>\<open>str.upper\<close>\<close>

text \<open>\<^verbatim>\<open>str.isspace\<close> on one character: U+0009..U+000D, U+001C..U+0020, U+0085, U+00A0.\<close>

definition py_isspace :: "char \<Rightarrow> bool" where
  "py_isspace c =
     (let n = (of_char c :: nat)
      in (9 \<le> n \<and> n \<le> 13) \<or> (28 \<le> n \<and> n \<le> 32) \<or> n = 133 \<or> n = 160)"

definition py_strip :: "string \<Rightarrow> string" where
  "py_strip s = rev (dropWhile py_isspace (rev (dropWhile py_isspace s)))"

text \<open>The capital letters of the range are A..Z and U+00C0..U+00DE without the
  multiplication sign U+00D7; each small letter is 32 further.\<close>

definition lower_char :: "char \<Rightarrow> char" where
  "lower_char c =
     (let n = (of_char c :: nat)
      in if (65 \<le> n \<and> n \<le> 90) \<or> (192 \<le> n \<and> n \<le> 222 \<and> n \<noteq> 215)
         then char_of (n + 32) else c)"

definition py_lower :: "string \<Rightarrow> string" where
  "py_lower s = map lower_char s"

text \<open>\<^verbatim>\<open>str.upper\<close>: the sharp s U+00DF becomes \<^verbatim>\<open>SS\<close>. The capitals of U+00B5 and
  U+00FF lie beyond U+00FF; the two letters are kept as they are, which no comparison of
  the program can tell apart (the result is only looked up among the ASCII discount
  codes).\<close>

definition upper_char :: "char \<Rightarrow> string" where
  "upper_char c =
     (let n = (of_char c :: nat)
      in if n = 223 then ''SS''
         else if (97 \<le> n \<and> n \<le> 122) \<or> (224 \<le> n \<and> n \<le> 254 \<and> n \<noteq> 247)
         then [char_of (n - 32)] else [c])"

definition py_upper :: "string \<Rightarrow> string" where
  "py_upper s = concat (map upper_char s)"

subsection \<open>\<^verbatim>\<open>format_price\<close>: the format \<^verbatim>\<open>${amount:,.2f}\<close>\<close>

definition digit_char :: "nat \<Rightarrow> char" where
  "digit_char d = char_of (48 + d)"

fun digits :: "nat \<Rightarrow> string" where
  "digits n = (if n < 10 then [digit_char n] else digits (n div 10) @ [digit_char (n mod 10)])"

declare digits.simps [simp del]

text \<open>\<^verbatim>\<open>str(n)\<close> for an integer.\<close>

definition str_int :: "int \<Rightarrow> string" where
  "str_int i = (if i < 0 then ''-'' @ digits (nat (- i)) else digits (nat i))"

text \<open>The thousands separator of the format: a comma before every group of three digits,
  counted from the right.\<close>

fun group3 :: "string \<Rightarrow> string" where
  "group3 ds =
     (if length ds \<le> 3 then ds
      else group3 (take (length ds - 3) ds) @ '','' @ drop (length ds - 3) ds)"

declare group3.simps [simp del]

text \<open>Rounding to the nearest integer, a tie to the even one, as the conversion to a
  decimal string does.\<close>

definition round_half_even :: "rat \<Rightarrow> int" where
  "round_half_even x =
     (let n = \<lfloor>x\<rfloor>; r = x - of_int n
      in if r < 1 / 2 then n else if 1 / 2 < r then n + 1
         else if even n then n else n + 1)"

definition format_fixed2 :: "rat \<Rightarrow> string" where
  "format_fixed2 amount =
     (let cents = nat (round_half_even (\<bar>amount\<bar> * 100))
      in (if amount < 0 then ''-'' else '''')
         @ group3 (digits (cents div 100))
         @ ''.'' @ [digit_char (cents mod 100 div 10), digit_char (cents mod 10)])"

definition format_price :: "rat \<Rightarrow> string" where
  "format_price amount = ''$'' @ format_fixed2 amount"

subsection \<open>Constants\<close>

definition TAX_RATE :: rat where
  "TAX_RATE = 8 / 100"

definition SHIPPING_THRESHOLD :: rat where
  "SHIPPING_THRESHOLD = 100"

definition SHIPPING_COST :: rat where
  "SHIPPING_COST = 10"

text \<open>A Python dictionary keeps the order of insertion: it is an association list.\<close>

definition DISCOUNT_CODES :: "(string \<times> rat) list" where
  "DISCOUNT_CODES = [(''WELCOME10'', 10 / 100), (''SAVE20'', 20 / 100), (''VIP30'', 30 / 100)]"

subsection \<open>Data model\<close>

record Product =
  id_p :: string
  nombre :: string
  precio :: rat
  stock :: int
  caracteristicas :: "string list"
  categoria :: string
  descripcion :: string
  rating :: rat
  reviews :: int

record CartItem =
  producto_id :: string
  item_nombre :: string
  precio_unitario :: rat
  cantidad :: int
  subtotal :: rat

text \<open>The constructor of \<^verbatim>\<open>CartItem\<close>: \<^verbatim>\<open>__post_init__\<close> sets the subtotal.\<close>

definition new_CartItem :: "string \<Rightarrow> string \<Rightarrow> rat \<Rightarrow> int \<Rightarrow> CartItem" where
  "new_CartItem pid nm pu n =
     \<lparr>producto_id = pid, item_nombre = nm, precio_unitario = pu, cantidad = n,
      subtotal = pu * of_int n\<rparr>"

record Cart =
  items :: "CartItem list"
  discount_code :: "string option"

definition get_subtotal :: "Cart \<Rightarrow> rat" where
  "get_subtotal c = sum_list (map subtotal (items c))"

text \<open>\<^verbatim>\<open>if self.discount_code and self.discount_code in DISCOUNT_CODES\<close>: \<^verbatim>\<open>None\<close> and
  the empty string are false.\<close>

definition get_discount_amount :: "Cart \<Rightarrow> rat" where
  "get_discount_amount c =
     (case discount_code c of
        None \<Rightarrow> 0
      | Some code \<Rightarrow>
          (if code \<noteq> [] then
             (case map_of DISCOUNT_CODES code of
                Some rate \<Rightarrow> get_subtotal c * rate
              | None \<Rightarrow> 0)
           else 0))"

definition get_tax :: "Cart \<Rightarrow> rat" where
  "get_tax c =
     (let subtotal_after_discount = get_subtotal c - get_discount_amount c
      in subtotal_after_discount * TAX_RATE)"

definition get_shipping :: "Cart \<Rightarrow> rat" where
  "get_shipping c = (if get_subtotal c \<ge> SHIPPING_THRESHOLD then 0 else SHIPPING_COST)"

definition get_total :: "Cart \<Rightarrow> rat" where
  "get_total c =
     (let subtotal = get_subtotal c;
          discount = get_discount_amount c;
          tax = get_tax c;
          shipping = get_shipping c
      in subtotal - discount + tax + shipping)"

subsection \<open>The catalogue\<close>

definition PRODUCTOS_DB :: "(string \<times> Product) list" where
  "PRODUCTOS_DB =
     [(''laptop gamer pro'',
       \<lparr>id_p = ''LPG001'', nombre = ''Laptop Gamer Pro'', precio = 1500, stock = 10,
        caracteristicas = [''RTX 4070'', ''32GB RAM'', ''1TB SSD'', ''144Hz Display''],
        categoria = ''Computadoras'',
        descripcion = ''Laptop gaming de alta gama para los juegos m'' @ [CHR 0xE1] @ ''s exigentes'',
        rating = 48 / 10, reviews = 127\<rparr>),
      (''teclado mecanico rgb'',
       \<lparr>id_p = ''TEC005'', nombre = ''Teclado Mec'' @ [CHR 0xE1] @ ''nico RGB'', precio = 120,
        stock = 25,
        caracteristicas = [''Switches Cherry MX'', ''RGB personalizable'', ''TKL'', ''USB-C''],
        categoria = ''Perif'' @ [CHR 0xE9] @ ''ricos'',
        descripcion = ''Teclado mec'' @ [CHR 0xE1] @ ''nico premium con iluminaci'' @ [CHR 0xF3]
          @ ''n RGB completa'',
        rating = 46 / 10, reviews = 89\<rparr>),
      (''monitor 4k hdr'',
       \<lparr>id_p = ''MON003'', nombre = ''Monitor 4K HDR'', precio = 400, stock = 5,
        caracteristicas = [''27 pulgadas'', ''144Hz'', ''HDR10'', ''G-Sync Compatible''],
        categoria = ''Monitores'',
        descripcion = ''Monitor gaming 4K con HDR para una experiencia visual inmersiva'',
        rating = 49 / 10, reviews = 203\<rparr>),
      (''mouse gaming pro'',
       \<lparr>id_p = ''MOU002'', nombre = ''Mouse Gaming Pro'', precio = 80, stock = 15,
        caracteristicas = [''16000 DPI'', ''RGB'', ''8 botones programables'',
          ''Inal'' @ [CHR 0xE1] @ ''mbrico''],
        categoria = ''Perif'' @ [CHR 0xE9] @ ''ricos'',
        descripcion = ''Mouse gaming profesional con sensor de alta precisi'' @ [CHR 0xF3] @ ''n'',
        rating = 47 / 10, reviews = 156\<rparr>),
      (''auriculares 7.1'',
       \<lparr>id_p = ''AUR004'', nombre = ''Auriculares Gaming 7.1'', precio = 150, stock = 8,
        caracteristicas = [''Sonido 7.1 Surround'', ''Micr'' @ [CHR 0xF3] @ ''fono retr''
          @ [CHR 0xE1] @ ''ctil'', ''RGB'', ''Cancelaci'' @ [CHR 0xF3] @ ''n de ruido''],
        categoria = ''Audio'',
        descripcion = ''Auriculares gaming con sonido envolvente para m'' @ [CHR 0xE1]
          @ ''xima inmersi'' @ [CHR 0xF3] @ ''n'',
        rating = 45 / 10, reviews = 94\<rparr>)]"

subsection \<open>\<^verbatim>\<open>difflib\<close>: \<^verbatim>\<open>SequenceMatcher\<close> and \<^verbatim>\<open>get_close_matches\<close>\<close>

text \<open>
  \<^verbatim>\<open>find_product_fuzzy\<close> calls \<^verbatim>\<open>get_close_matches(word, names, n=1, cutoff=0.6)\<close> of the
  standard library, which is modelled here after CPython's \<^verbatim>\<open>difflib.py\<close>. The matcher is
  built with \<^verbatim>\<open>isjunk=None\<close> and \<^verbatim>\<open>autojunk=True\<close>; \<open>a\<close> is the first sequence (a
  catalogue key), \<open>b\<close> the second (the query).

  \<^verbatim>\<open>__chain_b\<close>: \<^verbatim>\<open>b2j[elt]\<close> lists the positions of \<open>elt\<close> in \<open>b\<close> in increasing
  order. When \<open>b\<close> has 200 elements or more, the elements that occur more than
  \<^verbatim>\<open>len(b) // 100 + 1\<close> times are popular and are deleted from \<^verbatim>\<open>b2j\<close>.
\<close>

definition popular :: "'a list \<Rightarrow> 'a \<Rightarrow> bool" where
  "popular b elt = (length b \<ge> 200 \<and> count_list b elt > length b div 100 + 1)"

definition b2j :: "'a list \<Rightarrow> 'a \<Rightarrow> nat list" where
  "b2j b elt = (if popular b elt then [] else filter (\<lambda>j. b ! j = elt) [0..<length b])"

text \<open>
  \<^verbatim>\<open>find_longest_match\<close>, the inner loop \<^verbatim>\<open>for j in b2j.get(a[i], nothing)\<close>. The
  dictionaries \<^verbatim>\<open>j2len\<close> and \<^verbatim>\<open>newj2len\<close> are maps. \<^verbatim>\<open>j2lenget(j-1, 0)\<close> at \<open>j = 0\<close>
  asks for the key \<open>-1\<close>, which is never stored. The Python computes \<^verbatim>\<open>i-k+1\<close> on
  integers; \<open>k \<le> i + 1\<close> holds there, so the natural number \<open>i + 1 - k\<close> is the same.
\<close>

type_synonym flm_state = "(nat \<rightharpoonup> nat) \<times> nat \<times> nat \<times> nat"

fun flm_inner :: "nat \<Rightarrow> nat \<Rightarrow> (nat \<rightharpoonup> nat) \<Rightarrow> nat \<Rightarrow> nat list \<Rightarrow> flm_state \<Rightarrow> flm_state" where
  "flm_inner blo bhi j2len i [] st = st"
| "flm_inner blo bhi j2len i (j # js) (newj2len, besti, bestj, bestsize) =
     (if j < blo then flm_inner blo bhi j2len i js (newj2len, besti, bestj, bestsize)
      else if j \<ge> bhi then (newj2len, besti, bestj, bestsize)
      else
        (let k = (if j = 0 then 0 else (case j2len (j - 1) of Some v \<Rightarrow> v | None \<Rightarrow> 0)) + 1
         in if k > bestsize
            then flm_inner blo bhi j2len i js (newj2len(j \<mapsto> k), i + 1 - k, j + 1 - k, k)
            else flm_inner blo bhi j2len i js (newj2len(j \<mapsto> k), besti, bestj, bestsize)))"

text \<open>The outer loop \<^verbatim>\<open>for i in range(alo, ahi)\<close>.\<close>

fun flm_outer :: "'a list \<Rightarrow> 'a list \<Rightarrow> nat \<Rightarrow> nat \<Rightarrow> nat list \<Rightarrow> flm_state \<Rightarrow> nat \<times> nat \<times> nat" where
  "flm_outer a b blo bhi [] (j2len, besti, bestj, bestsize) = (besti, bestj, bestsize)"
| "flm_outer a b blo bhi (i # rest) (j2len, besti, bestj, bestsize) =
     flm_outer a b blo bhi rest
       (flm_inner blo bhi j2len i (b2j b (a ! i)) (Map.empty, besti, bestj, bestsize))"

text \<open>The two loops that extend the best match by equal elements on each end. (The two
  loops after them extend over junk; with \<^verbatim>\<open>isjunk=None\<close> no element is junk, and their
  conditions are false at once.)\<close>

function extend_left :: "'a list \<Rightarrow> 'a list \<Rightarrow> nat \<Rightarrow> nat \<Rightarrow> nat \<times> nat \<times> nat \<Rightarrow> nat \<times> nat \<times> nat" where
  "extend_left a b alo blo (besti, bestj, bestsize) =
     (if besti > alo \<and> bestj > blo \<and> a ! (besti - 1) = b ! (bestj - 1)
      then extend_left a b alo blo (besti - 1, bestj - 1, bestsize + 1)
      else (besti, bestj, bestsize))"
  by pat_completeness auto
termination
  by (relation "measure (\<lambda>(a, b, alo, blo, besti, bestj, bestsize). besti)") auto

function extend_right :: "'a list \<Rightarrow> 'a list \<Rightarrow> nat \<Rightarrow> nat \<Rightarrow> nat \<times> nat \<times> nat \<Rightarrow> nat \<times> nat \<times> nat" where
  "extend_right a b ahi bhi (besti, bestj, bestsize) =
     (if besti + bestsize < ahi \<and> bestj + bestsize < bhi
         \<and> a ! (besti + bestsize) = b ! (bestj + bestsize)
      then extend_right a b ahi bhi (besti, bestj, bestsize + 1)
      else (besti, bestj, bestsize))"
  by pat_completeness auto
termination
  by (relation "measure (\<lambda>(a, b, ahi, bhi, besti, bestj, bestsize). ahi - (besti + bestsize))") auto

declare extend_left.simps [simp del] extend_right.simps [simp del]

definition find_longest_match :: "'a list \<Rightarrow> 'a list \<Rightarrow> nat \<Rightarrow> nat \<Rightarrow> nat \<Rightarrow> nat \<Rightarrow> nat \<times> nat \<times> nat" where
  "find_longest_match a b alo ahi blo bhi =
     extend_right a b ahi bhi
       (extend_left a b alo blo
         (flm_outer a b blo bhi [alo..<ahi] (Map.empty, alo, blo, 0)))"

text \<open>What \<^verbatim>\<open>find_longest_match\<close> returns: a block of equal elements inside the
  window, or the empty block at the window's corner.\<close>

definition is_match :: "'a list \<Rightarrow> 'a list \<Rightarrow> nat \<Rightarrow> nat \<Rightarrow> nat \<Rightarrow> nat \<Rightarrow> nat \<times> nat \<times> nat \<Rightarrow> bool" where
  "is_match a b alo ahi blo bhi m =
     (case m of (i, j, k) \<Rightarrow>
        alo \<le> i \<and> i + k \<le> ahi \<and> blo \<le> j \<and> j + k \<le> bhi \<and> (\<forall>t<k. a ! (i + t) = b ! (j + t)))"

definition flm_good :: "'a list \<Rightarrow> 'a list \<Rightarrow> nat \<Rightarrow> nat \<Rightarrow> nat \<Rightarrow> nat \<Rightarrow> nat \<times> nat \<times> nat \<Rightarrow> bool" where
  "flm_good a b alo ahi blo bhi m =
     (case m of (i, j, k) \<Rightarrow>
        (k = 0 \<and> i = alo \<and> j = blo) \<or> (0 < k \<and> is_match a b alo ahi blo bhi m))"

definition j2len_inv :: "'a list \<Rightarrow> 'a list \<Rightarrow> nat \<Rightarrow> nat \<Rightarrow> nat \<Rightarrow> nat \<Rightarrow> (nat \<rightharpoonup> nat) \<Rightarrow> bool" where
  "j2len_inv a b alo blo bhi i j2len =
     (\<forall>j v. j2len j = Some v \<longrightarrow>
        0 < v \<and> v \<le> i - alo \<and> v \<le> j + 1 - blo \<and> j < bhi
        \<and> (\<forall>t<v. a ! (i - v + t) = b ! (j + 1 - v + t)))"

lemma b2j_elem: "j \<in> set (b2j b x) \<Longrightarrow> b ! j = x"
  by (auto simp: b2j_def split: if_splits)

lemma flm_inner_inv:
  assumes "j2len_inv a b alo blo bhi i j2len"
    and "alo \<le> i" and "i < ahi"
    and "\<forall>j\<in>set js. b ! j = a ! i"
    and "j2len_inv a b alo blo bhi (Suc i) newj2len"
    and "flm_good a b alo ahi blo bhi (besti, bestj, bestsize)"
    and "flm_inner blo bhi j2len i js (newj2len, besti, bestj, bestsize) = (n', m')"
  shows "j2len_inv a b alo blo bhi (Suc i) n' \<and> flm_good a b alo ahi blo bhi m'"
  using assms(4-)
proof (induction js arbitrary: newj2len besti bestj bestsize)
  case Nil
  then show ?case by simp
next
  case (Cons j js)
  show ?case
  proof (cases "j < blo")
    case True
    with Cons show ?thesis by simp
  next
    case nlo: False
    show ?thesis
    proof (cases "j \<ge> bhi")
      case True
      with nlo Cons.prems show ?thesis by simp
    next
      case False
      define k where "k = (if j = 0 then 0 else (case j2len (j - 1) of Some v \<Rightarrow> v | None \<Rightarrow> 0)) + 1"
      have bj: "b ! j = a ! i" using Cons.prems(1) by simp
      have kpos: "0 < k" by (simp add: k_def)
      have kprops: "k \<le> Suc i - alo \<and> k \<le> j + 1 - blo \<and> (\<forall>t<k. a ! (Suc i - k + t) = b ! (j + 1 - k + t))"
      proof (cases "j = 0 \<or> j2len (j - 1) = None")
        case True
        then have "k = 1" by (auto simp: k_def)
        with bj nlo assms(2) show ?thesis by auto
      next
        case False
        then obtain v where v: "j \<noteq> 0" "j2len (j - 1) = Some v" by auto
        then have k: "k = Suc v" by (simp add: k_def)
        from assms(1) v(2) have pv: "0 < v" "v \<le> i - alo" "v \<le> (j - 1) + 1 - blo"
          "\<forall>t<v. a ! (i - v + t) = b ! ((j - 1) + 1 - v + t)"
          unfolding j2len_inv_def by blast+
        have "a ! (Suc i - k + t) = b ! (j + 1 - k + t)" if "t < k" for t
        proof (cases "t < v")
          case True
          with pv(4) have "a ! (i - v + t) = b ! ((j - 1) + 1 - v + t)" by blast
          with v(1) k show ?thesis by simp
        next
          case False
          with that k have "t = v" by simp
          with k pv v(1) assms(2) bj show ?thesis by simp
        qed
        with k pv v(1) assms(2) nlo show ?thesis by auto
      qed
      have newinv: "j2len_inv a b alo blo bhi (Suc i) (newj2len(j \<mapsto> k))"
        using Cons.prems(2) kprops kpos False
        unfolding j2len_inv_def by (auto simp: not_le)
      show ?thesis
      proof (cases "k > bestsize")
        case True
        have "flm_good a b alo ahi blo bhi (i + 1 - k, j + 1 - k, k)"
          using kprops kpos assms(2,3) nlo False
          unfolding flm_good_def is_match_def by (auto simp: not_le not_less)
        moreover have "flm_inner blo bhi j2len i js (newj2len(j \<mapsto> k), i + 1 - k, j + 1 - k, k) = (n', m')"
          using Cons.prems(4) nlo False True by (simp add: k_def Let_def)
        moreover have "\<forall>j\<in>set js. b ! j = a ! i" using Cons.prems(1) by simp
        ultimately show ?thesis
          using Cons.IH newinv by blast
      next
        case nb: False
        have "flm_inner blo bhi j2len i js (newj2len(j \<mapsto> k), besti, bestj, bestsize) = (n', m')"
          using Cons.prems(4) nlo False nb by (simp add: k_def Let_def)
        moreover have "\<forall>j\<in>set js. b ! j = a ! i" using Cons.prems(1) by simp
        ultimately show ?thesis
          using Cons.IH newinv Cons.prems(3) by blast
      qed
    qed
  qed
qed

lemma flm_outer_inv:
  assumes "alo \<le> i"
    and "j2len_inv a b alo blo bhi i j2len"
    and "flm_good a b alo ahi blo bhi m"
  shows "flm_good a b alo ahi blo bhi (flm_outer a b blo bhi [i..<ahi] (j2len, m))"
  using assms
proof (induction "ahi - i" arbitrary: i j2len m)
  case 0
  then show ?case by (cases m) simp
next
  case (Suc n)
  then have lt: "i < ahi" by simp
  obtain besti bestj bestsize where m: "m = (besti, bestj, bestsize)" by (cases m) auto
  obtain n' m' where r: "flm_inner blo bhi j2len i (b2j b (a ! i)) (Map.empty, besti, bestj, bestsize) = (n', m')"
    by (cases "flm_inner blo bhi j2len i (b2j b (a ! i)) (Map.empty, besti, bestj, bestsize)") auto
  have e: "j2len_inv a b alo blo bhi (Suc i) Map.empty" by (simp add: j2len_inv_def)
  have "j2len_inv a b alo blo bhi (Suc i) n' \<and> flm_good a b alo ahi blo bhi m'"
    using flm_inner_inv[OF Suc.prems(2) Suc.prems(1) lt _ e _ r] Suc.prems(3) m
    by (auto dest: b2j_elem)
  moreover have "n = ahi - Suc i" using Suc.hyps(2) by simp
  ultimately have "flm_good a b alo ahi blo bhi (flm_outer a b blo bhi [Suc i..<ahi] (n', m'))"
    using Suc.hyps(1)[of "Suc i" n' m'] Suc.prems(1) by simp
  then show ?case using lt m r by (simp add: upt_conv_Cons)
qed

lemma extend_left_good:
  "flm_good a b alo ahi blo bhi m \<Longrightarrow> flm_good a b alo ahi blo bhi (extend_left a b alo blo m)"
proof (induction a b alo blo m rule: extend_left.induct)
  case (1 a b alo blo besti bestj bestsize)
  show ?case
  proof (cases "besti > alo \<and> bestj > blo \<and> a ! (besti - 1) = b ! (bestj - 1)")
    case True
    have "flm_good a b alo ahi blo bhi (besti - 1, bestj - 1, bestsize + 1)"
      using True "1.prems" unfolding flm_good_def is_match_def
      by (auto simp: less_Suc_eq_0_disj)
    with "1.IH" True show ?thesis by (subst extend_left.simps) auto
  next
    case False
    with "1.prems" show ?thesis by (subst extend_left.simps) auto
  qed
qed

lemma extend_right_good:
  "flm_good a b alo ahi blo bhi m \<Longrightarrow> flm_good a b alo ahi blo bhi (extend_right a b ahi bhi m)"
proof (induction a b ahi bhi m rule: extend_right.induct)
  case (1 a b ahi bhi besti bestj bestsize)
  show ?case
  proof (cases "besti + bestsize < ahi \<and> bestj + bestsize < bhi \<and> a ! (besti + bestsize) = b ! (bestj + bestsize)")
    case True
    have "flm_good a b alo ahi blo bhi (besti, bestj, bestsize + 1)"
      using True "1.prems" unfolding flm_good_def is_match_def
      by (auto simp: less_Suc_eq)
    with "1.IH" True show ?thesis by (subst extend_right.simps) auto
  next
    case False
    with "1.prems" show ?thesis by (subst extend_right.simps) auto
  qed
qed

lemma find_longest_match_good:
  "flm_good a b alo ahi blo bhi (find_longest_match a b alo ahi blo bhi)"
  unfolding find_longest_match_def
  by (intro extend_right_good extend_left_good flm_outer_inv)
     (simp_all add: j2len_inv_def flm_good_def)

text \<open>
  \<^verbatim>\<open>get_matching_blocks\<close>. The work list \<^verbatim>\<open>queue\<close> is a stack: \<^verbatim>\<open>queue.pop()\<close> takes the
  window appended last, so the head of the list is the end of the Python list; the window
  to the right of a block is appended after the one to its left and is taken first.
\<close>

function matching_loop ::
  "'a list \<Rightarrow> 'a list \<Rightarrow> (nat \<times> nat \<times> nat \<times> nat) list \<Rightarrow> (nat \<times> nat \<times> nat) list
    \<Rightarrow> (nat \<times> nat \<times> nat) list" where
  "matching_loop a b [] matching_blocks = matching_blocks"
| "matching_loop a b ((alo, ahi, blo, bhi) # queue) matching_blocks =
     (case find_longest_match a b alo ahi blo bhi of
        (i, j, k) \<Rightarrow>
          if k \<noteq> 0 then
            matching_loop a b
              ((if i + k < ahi \<and> j + k < bhi then [(i + k, ahi, j + k, bhi)] else [])
               @ (if alo < i \<and> blo < j then [(alo, i, blo, j)] else [])
               @ queue)
              (matching_blocks @ [(i, j, k)])
          else matching_loop a b queue matching_blocks)"
  by pat_completeness auto
termination
  apply (relation "measure (\<lambda>(a, b, queue, blocks).
    sum_list (map (\<lambda>(alo, ahi, blo, bhi). 1 + 2 * (ahi - alo)) queue))")
  subgoal by simp
  subgoal for a b alo ahi blo bhi queue matching_blocks
    using find_longest_match_good[of a b alo ahi blo bhi]
    by (auto simp: flm_good_def is_match_def)
  subgoal by simp
  done

declare matching_loop.simps [simp del]

text \<open>The end of \<^verbatim>\<open>get_matching_blocks\<close>: the blocks are sorted, adjacent blocks are
  merged, and the sentinel \<^verbatim>\<open>(la, lb, 0)\<close> is appended.\<close>

fun collapse_loop ::
  "(nat \<times> nat \<times> nat) list \<Rightarrow> nat \<times> nat \<times> nat \<Rightarrow> (nat \<times> nat \<times> nat) list
    \<Rightarrow> (nat \<times> nat \<times> nat) list" where
  "collapse_loop [] (i1, j1, k1) non_adjacent =
     (if k1 \<noteq> 0 then non_adjacent @ [(i1, j1, k1)] else non_adjacent)"
| "collapse_loop ((i2, j2, k2) # rest) (i1, j1, k1) non_adjacent =
     (if i1 + k1 = i2 \<and> j1 + k1 = j2
      then collapse_loop rest (i1, j1, k1 + k2) non_adjacent
      else collapse_loop rest (i2, j2, k2)
             (if k1 \<noteq> 0 then non_adjacent @ [(i1, j1, k1)] else non_adjacent))"

definition get_matching_blocks :: "'a list \<Rightarrow> 'a list \<Rightarrow> (nat \<times> nat \<times> nat) list" where
  "get_matching_blocks a b =
     (let la = length a; lb = length b;
          matching_blocks = sort (matching_loop a b [(0, la, 0, lb)] [])
      in collapse_loop matching_blocks (0, 0, 0) [] @ [(la, lb, 0)])"

text \<open>\<^verbatim>\<open>_calculate_ratio\<close>, and the three similarity measures of a matcher whose first
  sequence is \<open>a\<close> and whose second sequence is \<open>b\<close>. The Python divides floats
  (\<^verbatim>\<open>2.0 * matches / length\<close>); the model keeps the exact fraction. For sequences of
  fewer than \<open>2\<^sup>2\<^sup>6\<close> elements, two such fractions, or one of them and the cutoff 0.6,
  compare as their floating-point values do: different fractions differ by more than the
  rounding.\<close>

definition calculate_ratio :: "nat \<Rightarrow> nat \<Rightarrow> rat" where
  "calculate_ratio matches len = (if len \<noteq> 0 then 2 * of_nat matches / of_nat len else 1)"

definition ratio :: "'a list \<Rightarrow> 'a list \<Rightarrow> rat" where
  "ratio a b =
     (let matches = sum_list (map (\<lambda>(i, j, k). k) (get_matching_blocks a b))
      in calculate_ratio matches (length a + length b))"

text \<open>\<^verbatim>\<open>quick_ratio\<close>: \<^verbatim>\<open>fullbcount\<close> counts the elements of \<open>b\<close>; \<^verbatim>\<open>avail\<close> holds, for
  the elements met so far, how many of them are still unmatched (it can go below zero).\<close>

fun quick_loop :: "'a list \<Rightarrow> ('a \<Rightarrow> nat) \<Rightarrow> ('a \<rightharpoonup> int) \<Rightarrow> nat \<Rightarrow> nat" where
  "quick_loop [] fullbcount avail matches = matches"
| "quick_loop (elt # rest) fullbcount avail matches =
     (let numb = (case avail elt of Some n \<Rightarrow> n | None \<Rightarrow> int (fullbcount elt))
      in quick_loop rest fullbcount (avail(elt \<mapsto> numb - 1))
           (if numb > 0 then matches + 1 else matches))"

definition quick_ratio :: "'a list \<Rightarrow> 'a list \<Rightarrow> rat" where
  "quick_ratio a b =
     calculate_ratio (quick_loop a (count_list b) Map.empty 0) (length a + length b)"

definition real_quick_ratio :: "'a list \<Rightarrow> 'a list \<Rightarrow> rat" where
  "real_quick_ratio a b =
     (let la = length a; lb = length b in calculate_ratio (min la lb) (la + lb))"

text \<open>
  \<^verbatim>\<open>get_close_matches(word, possibilities, n=1, cutoff)\<close>. The candidates are the pairs
  \<^verbatim>\<open>(score, x)\<close> of the possibilities that pass the three tests, in the order of
  \<open>possibilities\<close>. \<^verbatim>\<open>heapq.nlargest(1, result)\<close> is \<^verbatim>\<open>max(result)\<close>: the pairs are
  compared as tuples, the score first and then the string, and a later pair replaces the
  best one only when it is greater.
\<close>

definition close_candidates :: "string \<Rightarrow> string list \<Rightarrow> rat \<Rightarrow> (rat \<times> string) list" where
  "close_candidates word possibilities cutoff =
     map (\<lambda>x. (ratio x word, x))
       (filter (\<lambda>x. real_quick_ratio x word \<ge> cutoff \<and> quick_ratio x word \<ge> cutoff
                     \<and> ratio x word \<ge> cutoff) possibilities)"

fun py_max :: "'a::linorder \<Rightarrow> 'a list \<Rightarrow> 'a" where
  "py_max best [] = best"
| "py_max best (x # xs) = py_max (if x > best then x else best) xs"

definition nlargest1 :: "'a::linorder list \<Rightarrow> 'a list" where
  "nlargest1 result = (case result of [] \<Rightarrow> [] | x # xs \<Rightarrow> [py_max x xs])"

definition get_close_matches1 :: "string \<Rightarrow> string list \<Rightarrow> rat \<Rightarrow> string list" where
  "get_close_matches1 word possibilities cutoff =
     map snd (nlargest1 (close_candidates word possibilities cutoff))"

subsection \<open>Helper functions of the module\<close>

text \<open>\<^verbatim>\<open>PRODUCTOS_DB[match]\<close> cannot fail: \<open>match\<close> is one of the keys.\<close>

definition find_product_fuzzy :: "string \<Rightarrow> (string \<times> Product) option" where
  "find_product_fuzzy nombre_q =
     (let nombre_lower = py_lower (py_strip nombre_q)
      in case map_of PRODUCTOS_DB nombre_lower of
           Some p \<Rightarrow> Some (nombre_lower, p)
         | None \<Rightarrow>
             (let product_names = map fst PRODUCTOS_DB;
                  matches = get_close_matches1 nombre_lower product_names (6 / 10)
              in case matches of
                   [] \<Rightarrow> None
                 | match # _ \<Rightarrow> Some (match, the (map_of PRODUCTOS_DB match))))"

subsection \<open>Returned dictionaries\<close>

text \<open>
  Several texts of the module hold symbols beyond U+00FF (emoji, a bullet, a star). Such a
  text is modelled by a template: one constructor for each f-string or literal, with the
  values it interpolates as arguments. Texts within the range are plain strings.
  The line is that of the text in \<^verbatim>\<open>agent.py\<close>.
\<close>

datatype fstring =
    RatingReviews rat int         \<comment> \<open>234: star, rating/5.0 (reviews)\<close>
  | ProductoEncontrado string     \<comment> \<open>237: product found\<close>
  | Sugerencia string string      \<comment> \<open>244: bullet, name (formatted price)\<close>
  | NoEncontre string             \<comment> \<open>248: query not found\<close>
  | ProductosDisponibles "fstring list"  \<comment> \<open>250: header line, then the suggestions, one a line\<close>
  | CantidadEnteraPositiva        \<comment> \<open>270: the quantity must be an integer above zero\<close>
  | NoEncontreProducto string     \<comment> \<open>278: no such product, use the search\<close>
  | StockInsuficiente int string  \<comment> \<open>292: only so many units available of the product\<close>
  | Agregado int string           \<comment> \<open>315: added so many of the product\<close>
  | CarritoVacio                  \<comment> \<open>341: the cart is empty\<close>
  | CarritoVacioDescuento         \<comment> \<open>400: the cart is empty, add products first\<close>
  | CodigoNoValido string         \<comment> \<open>408: the code is not valid\<close>
  | CodigoAplicado string int     \<comment> \<open>418: code applied, so many percent\<close>
  | NoEncontradoEnCarrito string  \<comment> \<open>444: query not found in the cart\<close>
  | NoEstaEnCarrito string        \<comment> \<open>453: the product is not in the cart\<close>
  | RemovidoCompletamente string  \<comment> \<open>461: product removed completely\<close>
  | RemovidasUnidades int string  \<comment> \<open>471: so many units removed\<close>
  | CantidadPositiva              \<comment> \<open>478: the quantity must be above zero\<close>
  | CarritoVaciado                \<comment> \<open>498: cart emptied\<close>
  | TotalAPagar string            \<comment> \<open>544: total to pay\<close>
  | Rating rat                    \<comment> \<open>603: star, rating/5.0\<close>
  | TopRecomendados int           \<comment> \<open>613: top so many recommended products\<close>

text \<open>A Python value of a result. A dictionary is an association list in the order of
  insertion. \<open>PListOfSet\<close> is \<^verbatim>\<open>list(set(...))\<close>: a list of the elements of the set in
  an order that Python does not fix.\<close>

datatype pyval =
    PNone
  | PBool bool
  | PInt int
  | PNum rat
  | PStr string
  | PText fstring
  | PList "pyval list"
  | PListOfSet "string set"
  | PDict "(string \<times> pyval) list"

type_synonym pydict = "(string \<times> pyval) list"

text \<open>\<^verbatim>\<open>int(x)\<close> of a float: truncation towards zero.\<close>

definition py_int :: "rat \<Rightarrow> int" where
  "py_int x = (if x \<ge> 0 then \<lfloor>x\<rfloor> else \<lceil>x\<rceil>)"

subsection \<open>The globals and the nine tools\<close>

record globals =
  carrito :: Cart
  historial_busquedas :: "string list"

definition initial_globals :: globals where
  "initial_globals = \<lparr>carrito = \<lparr>items = [], discount_code = None\<rparr>, historial_busquedas = []\<rparr>"

definition get_cart_item_by_product :: "globals \<Rightarrow> string \<Rightarrow> CartItem option" where
  "get_cart_item_by_product g pid = find (\<lambda>item. producto_id item = pid) (items (carrito g))"

definition buscar_producto_por_nombre :: "globals \<Rightarrow> string \<Rightarrow> pydict \<times> globals" where
  "buscar_producto_por_nombre g nombre_producto =
     (let g1 = g\<lparr>historial_busquedas := historial_busquedas g @ [nombre_producto]\<rparr>
      in case find_product_fuzzy nombre_producto of
           Some (key, producto) \<Rightarrow>
             ([(''status'', PStr ''success''),
               (''product'', PDict
                 [(''id'', PStr (id_p producto)),
                  (''nombre'', PStr (nombre producto)),
                  (''precio'', PNum (precio producto)),
                  (''precio_formateado'', PStr (format_price (precio producto))),
                  (''stock'', PInt (stock producto)),
                  (''caracter'' @ [CHR 0xED] @ ''sticas'', PList (map PStr (caracteristicas producto))),
                  (''categoria'', PStr (categoria producto)),
                  (''descripcion'', PStr (descripcion producto)),
                  (''rating'', PText (RatingReviews (rating producto) (reviews producto))),
                  (''disponible'', PBool (stock producto > 0))]),
               (''message'', PText (ProductoEncontrado (nombre producto)))], g1)
         | None \<Rightarrow>
             (let sugerencias =
                    map (\<lambda>nm. let p = the (map_of PRODUCTOS_DB nm)
                              in Sugerencia (nombre p) (format_price (precio p)))
                      (take 3 (map fst PRODUCTOS_DB))
              in ([(''status'', PStr ''not_found''),
                   (''message'', PText (NoEncontre nombre_producto)),
                   (''sugerencias'', PList (map PText sugerencias)),
                   (''sugerencias_text'', PText (ProductosDisponibles sugerencias))], g1)))"

text \<open>\<^verbatim>\<open>existing_item.cantidad += cantidad\<close> changes the line that
  \<^verbatim>\<open>get_cart_item_by_product\<close> found, the first one of the product.\<close>

fun update_first :: "('a \<Rightarrow> bool) \<Rightarrow> ('a \<Rightarrow> 'a) \<Rightarrow> 'a list \<Rightarrow> 'a list" where
  "update_first P f [] = []"
| "update_first P f (x # xs) = (if P x then f x # xs else x # update_first P f xs)"

definition agregar_al_carrito :: "globals \<Rightarrow> string \<Rightarrow> int \<Rightarrow> pydict \<times> globals" where
  "agregar_al_carrito g producto cantidad_n =
     (if cantidad_n \<le> 0 then
        ([(''status'', PStr ''error''), (''message'', PText CantidadEnteraPositiva)], g)
      else case find_product_fuzzy producto of
        None \<Rightarrow>
          ([(''status'', PStr ''error''), (''message'', PText (NoEncontreProducto producto))], g)
      | Some (key, product_info) \<Rightarrow>
          (let existing_item = get_cart_item_by_product g (id_p product_info);
               cantidad_actual = (case existing_item of Some it \<Rightarrow> cantidad it | None \<Rightarrow> 0)
           in if cantidad_actual + cantidad_n > stock product_info then
                (let disponible = stock product_info - cantidad_actual
                 in ([(''status'', PStr ''error''),
                      (''message'', PText (StockInsuficiente disponible (nombre product_info))),
                      (''stock_actual'', PInt (stock product_info)),
                      (''en_carrito'', PInt cantidad_actual),
                      (''disponible'', PInt disponible)], g))
              else
                (let items1 =
                       (case existing_item of
                          Some it \<Rightarrow>
                            update_first (\<lambda>item. producto_id item = id_p product_info)
                              (\<lambda>item. item\<lparr>cantidad := cantidad item + cantidad_n,
                                 subtotal := precio_unitario item * of_int (cantidad item + cantidad_n)\<rparr>)
                              (items (carrito g))
                        | None \<Rightarrow>
                            items (carrito g) @
                              [new_CartItem (id_p product_info) (nombre product_info)
                                 (precio product_info) cantidad_n]);
                     g1 = g\<lparr>carrito := (carrito g)\<lparr>items := items1\<rparr>\<rparr>;
                     total_items = sum_list (map cantidad items1);
                     subtotal_c = get_subtotal (carrito g1)
                 in ([(''status'', PStr ''success''),
                      (''message'', PText (Agregado cantidad_n (nombre product_info))),
                      (''producto_agregado'', PDict
                        [(''nombre'', PStr (nombre product_info)),
                         (''cantidad'', PInt cantidad_n),
                         (''precio_unitario'', PStr (format_price (precio product_info))),
                         (''subtotal'', PStr (format_price (precio product_info * of_int cantidad_n)))]),
                      (''carrito_resumen'', PDict
                        [(''total_items'', PInt total_items),
                         (''subtotal'', PStr (format_price subtotal_c)),
                         (''envio_gratis'', PBool (subtotal_c \<ge> SHIPPING_THRESHOLD))])], g1))))"

text \<open>The loops that list the lines of the cart (\<^verbatim>\<open>ver_carrito\<close> under the key
  \<^verbatim>\<open>nombre\<close>, \<^verbatim>\<open>calcular_total\<close> under the key \<^verbatim>\<open>producto\<close>).\<close>

definition items_detail :: "string \<Rightarrow> CartItem list \<Rightarrow> pyval list" where
  "items_detail name_key its =
     map (\<lambda>item. PDict
           [(name_key, PStr (item_nombre item)),
            (''cantidad'', PInt (cantidad item)),
            (''precio_unitario'', PStr (format_price (precio_unitario item))),
            (''subtotal'', PStr (format_price (subtotal item)))]) its"

definition ver_carrito :: "globals \<Rightarrow> pydict \<times> globals" where
  "ver_carrito g =
     (if items (carrito g) = [] then
        ([(''status'', PStr ''empty''),
          (''message'', PText CarritoVacio),
          (''sugerencia'', PStr ''Puedes buscar productos disponibles o pedir recomendaciones.'')], g)
      else
        (let subtotal_c = get_subtotal (carrito g);
             discount = get_discount_amount (carrito g);
             tax = get_tax (carrito g);
             shipping = get_shipping (carrito g);
             total = get_total (carrito g);
             resumen =
               [(''status'', PStr ''success''),
                (''items'', PList (items_detail ''nombre'' (items (carrito g)))),
                (''total_productos'', PInt (int (length (items (carrito g))))),
                (''total_unidades'', PInt (sum_list (map cantidad (items (carrito g))))),
                (''calculos'', PDict
                  [(''subtotal'', PStr (format_price subtotal_c)),
                   (''descuento'', if discount > 0 then PStr (format_price discount) else PNone),
                   (''codigo_descuento'',
                      (case discount_code (carrito g) of Some code \<Rightarrow> PStr code | None \<Rightarrow> PNone)),
                   (''impuestos'', PStr (format_price tax)),
                   (''envio'', PStr (format_price shipping)),
                   (''envio_gratis'', PBool (shipping = 0)),
                   (''total'', PStr (format_price total))])];
             resumen1 =
               (if discount > 0
                then resumen @ [(''mensaje_ahorro'',
                       PStr ([CHR 0xA1] @ ''Est'' @ [CHR 0xE1] @ ''s ahorrando '' @ format_price discount @ ''!''))]
                else resumen);
             resumen2 =
               (if shipping = 0 \<and> subtotal_c \<ge> SHIPPING_THRESHOLD
                then resumen1 @ [(''mensaje_envio'',
                       PStr ([CHR 0xA1] @ ''Env'' @ [CHR 0xED] @ ''o gratis incluido!''))]
                else resumen1)
         in (resumen2, g)))"

definition aplicar_descuento :: "globals \<Rightarrow> string \<Rightarrow> pydict \<times> globals" where
  "aplicar_descuento g codigo =
     (if items (carrito g) = [] then
        ([(''status'', PStr ''error''), (''message'', PText CarritoVacioDescuento)], g)
      else
        (let codigo_upper = py_upper (py_strip codigo)
         in case map_of DISCOUNT_CODES codigo_upper of
              None \<Rightarrow>
                ([(''status'', PStr ''error''),
                  (''message'', PText (CodigoNoValido codigo)),
                  (''codigos_disponibles'', PList (map (\<lambda>kv. PStr (fst kv)) DISCOUNT_CODES))], g)
            | Some descuento_pct \<Rightarrow>
                (let g1 = g\<lparr>carrito := (carrito g)\<lparr>discount_code := Some codigo_upper\<rparr>\<rparr>;
                     descuento_amt = get_discount_amount (carrito g1)
                 in ([(''status'', PStr ''success''),
                      (''message'', PText (CodigoAplicado codigo_upper (py_int (descuento_pct * 100)))),
                      (''descuento'', PDict
                        [(''porcentaje'', PStr (str_int (py_int (descuento_pct * 100)) @ ''%'')),
                         (''monto'', PStr (format_price descuento_amt)),
                         (''subtotal_original'', PStr (format_price (get_subtotal (carrito g1)))),
                         (''total_con_descuento'', PStr (format_price (get_total (carrito g1))))])],
                     g1))))"

text \<open>\<^verbatim>\<open>carrito.items.remove(item)\<close> deletes the first line equal to \<open>item\<close>.\<close>

definition remover_del_carrito :: "globals \<Rightarrow> string \<Rightarrow> int option \<Rightarrow> pydict \<times> globals" where
  "remover_del_carrito g producto cantidad_q =
     (case find_product_fuzzy producto of
        None \<Rightarrow>
          ([(''status'', PStr ''error''), (''message'', PText (NoEncontradoEnCarrito producto))], g)
      | Some (key, product_info) \<Rightarrow>
          (case get_cart_item_by_product g (id_p product_info) of
             None \<Rightarrow>
               ([(''status'', PStr ''error''),
                 (''message'', PText (NoEstaEnCarrito (nombre product_info)))], g)
           | Some item \<Rightarrow>
               if cantidad_q = None \<or> the cantidad_q \<ge> cantidad item then
                 ([(''status'', PStr ''success''),
                   (''message'', PText (RemovidoCompletamente (nombre product_info))),
                   (''producto_removido'', PStr (nombre product_info)),
                   (''cantidad_removida'', PInt (cantidad item))],
                  g\<lparr>carrito := (carrito g)\<lparr>items := remove1 item (items (carrito g))\<rparr>\<rparr>)
               else if the cantidad_q > 0 then
                 ([(''status'', PStr ''success''),
                   (''message'', PText (RemovidasUnidades (the cantidad_q) (nombre product_info))),
                   (''cantidad_removida'', PInt (the cantidad_q)),
                   (''cantidad_restante'', PInt (cantidad item - the cantidad_q))],
                  g\<lparr>carrito := (carrito g)\<lparr>items :=
                      update_first (\<lambda>it. producto_id it = id_p product_info)
                        (\<lambda>it. it\<lparr>cantidad := cantidad it - the cantidad_q,
                           subtotal := precio_unitario it * of_int (cantidad it - the cantidad_q)\<rparr>)
                        (items (carrito g))\<rparr>\<rparr>)
               else
                 ([(''status'', PStr ''error''), (''message'', PText CantidadPositiva)], g)))"

definition vaciar_carrito :: "globals \<Rightarrow> pydict \<times> globals" where
  "vaciar_carrito g =
     (let items_count = int (length (items (carrito g)));
          units_count = sum_list (map cantidad (items (carrito g)))
      in ([(''status'', PStr ''success''),
           (''message'', PText CarritoVaciado),
           (''productos_removidos'', PInt items_count),
           (''unidades_removidas'', PInt units_count)],
          g\<lparr>carrito := (carrito g)\<lparr>items := [], discount_code := None\<rparr>\<rparr>))"

definition calcular_total :: "globals \<Rightarrow> pydict \<times> globals" where
  "calcular_total g =
     (if items (carrito g) = [] then
        ([(''status'', PStr ''empty''),
          (''message'', PStr (''El carrito est'' @ [CHR 0xE1] @ '' vac'' @ [CHR 0xED] @ ''o.'')),
          (''total'', PStr (format_price 0))], g)
      else
        (let subtotal_c = get_subtotal (carrito g);
             discount = get_discount_amount (carrito g);
             tax = get_tax (carrito g);
             shipping = get_shipping (carrito g);
             total = get_total (carrito g);
             desglose =
               [(''status'', PStr ''success''),
                (''resumen_productos'', PList (items_detail ''producto'' (items (carrito g)))),
                (''subtotal'', PStr (format_price subtotal_c)),
                (''descuento'',
                   if discount > 0
                   then PDict
                     [(''codigo'',
                         (case discount_code (carrito g) of Some code \<Rightarrow> PStr code | None \<Rightarrow> PNone)),
                      (''monto'', PStr (format_price discount))]
                   else PNone),
                (''impuestos'', PDict
                  [(''tasa'', PStr (str_int (py_int (TAX_RATE * 100)) @ ''%'')),
                   (''monto'', PStr (format_price tax))]),
                (''envio'', PDict
                  [(''costo'', PStr (format_price shipping)),
                   (''gratis'', PBool (shipping = 0)),
                   (''umbral_gratis'', PStr (format_price SHIPPING_THRESHOLD))]),
                (''total'', PStr (format_price total)),
                (''mensaje'', PText (TotalAPagar (format_price total)))];
             ahorros =
               (if discount > 0 then [PStr (''Descuento: '' @ format_price discount)] else [])
               @ (if shipping = 0 \<and> subtotal_c \<ge> SHIPPING_THRESHOLD
                  then [PStr (''Env'' @ [CHR 0xED] @ ''o gratis: '' @ format_price SHIPPING_COST)]
                  else [])
         in (if ahorros \<noteq> []
             then desglose @ [(''ahorros_totales'', PDict
                    [(''items'', PList ahorros),
                     (''total'', PStr (format_price
                        (discount + (if shipping = 0 then SHIPPING_COST else 0))))])]
             else desglose, g)))"

text \<open>\<^verbatim>\<open>productos.sort(key=..., reverse=True)\<close>: a stable sort in descending order, so
  products with equal keys keep their order.\<close>

definition sort_desc :: "('a \<Rightarrow> 'k::linorder) \<Rightarrow> 'a list \<Rightarrow> 'a list" where
  "sort_desc f xs = rev (sort_key f (rev xs))"

definition recomendar_productos :: "globals \<Rightarrow> string option \<Rightarrow> pydict \<times> globals" where
  "recomendar_productos g categoria_q =
     (let productos = map snd PRODUCTOS_DB;
          given = (categoria_q \<noteq> None \<and> categoria_q \<noteq> Some []);
          productos1 =
            (if given
             then filter (\<lambda>p. py_lower (categoria p) = py_lower (the categoria_q)) productos
             else productos)
      in if given \<and> productos1 = [] then
           ([(''status'', PStr ''error''),
             (''message'', PStr (''No hay productos en la categor'' @ [CHR 0xED] @ ''a ''
                @ [CHR 0x27] @ the categoria_q @ [CHR 0x27] @ ''.'')),
             (''categorias_disponibles'', PListOfSet (set (map (\<lambda>kv. categoria (snd kv)) PRODUCTOS_DB)))],
            g)
         else
           (let productos2 = sort_desc (\<lambda>p. (rating p, reviews p)) productos1;
                recomendaciones =
                  map (\<lambda>p. PDict
                        [(''nombre'', PStr (nombre p)),
                         (''precio'', PStr (format_price (precio p))),
                         (''rating'', PText (Rating (rating p))),
                         (''categoria'', PStr (categoria p)),
                         (''descripcion'', PStr (descripcion p)),
                         (''disponible'', PBool (stock p > 0))]) (take 3 productos2)
            in ([(''status'', PStr ''success''),
                 (''categoria'', PStr (if given then the categoria_q else ''Todas'')),
                 (''recomendaciones'', PList recomendaciones),
                 (''mensaje'', PText (TopRecomendados (int (length recomendaciones))))], g)))"

definition mostrar_historial_busquedas :: "globals \<Rightarrow> pydict \<times> globals" where
  "mostrar_historial_busquedas g =
     (if historial_busquedas g = [] then
        ([(''status'', PStr ''empty''), (''message'', PStr (''No hay b'' @ [CHR 0xFA] @ ''squedas recientes.''))], g)
      else
        ([(''status'', PStr ''success''),
          (''historial'', PList (map PStr
             (drop (length (historial_busquedas g) - 5) (historial_busquedas g)))),
          (''total_busquedas'', PInt (int (length (historial_busquedas g))))], g))"

subsection \<open>Calls of the tools and the states they reach\<close>

text \<open>A call of one of the nine tools registered with the agent. An argument with a
  default may be left out: \<^verbatim>\<open>cantidad=1\<close> of \<^verbatim>\<open>agregar_al_carrito\<close>, \<^verbatim>\<open>cantidad=None\<close>
  of \<^verbatim>\<open>remover_del_carrito\<close>, \<^verbatim>\<open>categoria=None\<close> of \<^verbatim>\<open>recomendar_productos\<close>.\<close>

datatype call =
    Buscar string
  | Agregar string "int option"
  | Ver
  | Descuento string
  | Remover string "int option"
  | Vaciar
  | Total
  | Recomendar "string option"
  | Historial

fun run_call :: "globals \<Rightarrow> call \<Rightarrow> pydict \<times> globals" where
  "run_call g (Buscar q) = buscar_producto_por_nombre g q"
| "run_call g (Agregar p n) = agregar_al_carrito g p (case n of None \<Rightarrow> 1 | Some k \<Rightarrow> k)"
| "run_call g Ver = ver_carrito g"
| "run_call g (Descuento c) = aplicar_descuento g c"
| "run_call g (Remover p n) = remover_del_carrito g p n"
| "run_call g Vaciar = vaciar_carrito g"
| "run_call g Total = calcular_total g"
| "run_call g (Recomendar c) = recomendar_productos g c"
| "run_call g Historial = mostrar_historial_busquedas g"

inductive reachable :: "globals \<Rightarrow> bool" where
  start: "reachable initial_globals"
| step: "reachable g \<Longrightarrow> reachable (snd (run_call g c))"

subsection \<open>Predicates of the statements\<close>

text \<open>The invariant of the cart: positive quantities, subtotals in step with the
  quantities, one line for each product identifier, and no line above the stock of the
  product it names.\<close>

definition cart_inv :: "Cart \<Rightarrow> bool" where
  "cart_inv c \<longleftrightarrow>
     (\<forall>item\<in>set (items c).
        0 < cantidad item \<and> subtotal item = precio_unitario item * of_int (cantidad item))
     \<and> distinct (map producto_id (items c))
     \<and> (\<forall>(key, p)\<in>set PRODUCTOS_DB. \<forall>item\<in>set (items c).
          producto_id item = id_p p \<longrightarrow> cantidad item \<le> stock p)"

text \<open>A result has a status among the four, and a message that is a text.\<close>

definition is_text :: "pyval \<Rightarrow> bool" where
  "is_text v = (case v of PStr s \<Rightarrow> True | PText t \<Rightarrow> True | _ \<Rightarrow> False)"

definition has_message :: "pydict \<Rightarrow> bool" where
  "has_message r = (case map_of r ''message'' of Some v \<Rightarrow> is_text v | None \<Rightarrow> False)"

definition has_status :: "pydict \<Rightarrow> bool" where
  "has_status r =
     (case map_of r ''status'' of
        Some (PStr st) \<Rightarrow> st \<in> set [''success'', ''error'', ''empty'', ''not_found'']
      | _ \<Rightarrow> False)"

text \<open>For the proofs about the matching blocks: the elements of a sequence between two
  positions, a window inside the two sequences, the number of elements that the two sides
  of a window have in common, and the size of a block.\<close>

definition slice :: "'a list \<Rightarrow> nat \<Rightarrow> nat \<Rightarrow> 'a list" where
  "slice xs lo hi = take (hi - lo) (drop lo xs)"

definition window_ok :: "'a list \<Rightarrow> 'a list \<Rightarrow> nat \<times> nat \<times> nat \<times> nat \<Rightarrow> bool" where
  "window_ok a b w =
     (case w of (alo, ahi, blo, bhi) \<Rightarrow>
        alo \<le> ahi \<and> ahi \<le> length a \<and> blo \<le> bhi \<and> bhi \<le> length b)"

definition window_cap :: "'a list \<Rightarrow> 'a list \<Rightarrow> nat \<times> nat \<times> nat \<times> nat \<Rightarrow> nat" where
  "window_cap a b w =
     (case w of (alo, ahi, blo, bhi) \<Rightarrow> size (mset (slice a alo ahi) \<inter># mset (slice b blo bhi)))"

definition block_size :: "nat \<times> nat \<times> nat \<Rightarrow> nat" where
  "block_size m = (case m of (i, j, k) \<Rightarrow> k)"

section \<open>Evaluation on concrete inputs\<close>

lemmas char_eval = char_of_def bit_Suc_0_iff

lemmas format_eval = format_price_def format_fixed2_def round_half_even_def digits.simps
  group3.simps digit_char_def char_eval

lemmas normalize_eval = py_lower_def py_upper_def py_strip_def py_isspace_def lower_char_def
  upper_char_def char_eval

lemmas pricing_defs = get_total_def get_tax_def get_shipping_def get_discount_amount_def
  get_subtotal_def TAX_RATE_def SHIPPING_THRESHOLD_def SHIPPING_COST_def

lemmas ratio_eval = ratio_def calculate_ratio_def get_matching_blocks_def matching_loop.simps
  find_longest_match_def b2j_def popular_def extend_left.simps extend_right.simps upt_conv_Cons

lemmas difflib_eval = find_product_fuzzy_def get_close_matches1_def nlargest1_def
  close_candidates_def real_quick_ratio_def quick_ratio_def ratio_def calculate_ratio_def
  get_matching_blocks_def matching_loop.simps find_longest_match_def b2j_def popular_def
  extend_left.simps extend_right.simps upt_conv_Cons

lemma format_values:
  "format_price 0 = ''$0.00''"
  "format_price 80 = ''$80.00''"
  "format_price 160 = ''$160.00''"
  "format_price (64 / 5) = ''$12.80''"
  "format_price (864 / 5) = ''$172.80''"
  "format_price 48 = ''$48.00''"
  "format_price (3024 / 25) = ''$120.96''"
  by (simp_all add: format_eval)

lemma str_int_30: "str_int 30 = ''30''"
  by (simp add: str_int_def digits.simps digit_char_def char_eval)

lemma normalize_vip30: "py_upper (py_strip '' vip30 '') = ''VIP30''"
  by (simp add: normalize_eval)

lemma normalize_nope: "py_upper (py_strip ''nope'') = ''NOPE''"
  by (simp add: normalize_eval)

lemma normalize_gam_pro: "py_lower (py_strip ''gam pro'') = ''gam pro''"
  by (simp add: normalize_eval)

lemma catalog_keys:
  "map fst PRODUCTOS_DB =
     [''laptop gamer pro'', ''teclado mecanico rgb'', ''monitor 4k hdr'', ''mouse gaming pro'',
      ''auriculares 7.1'']"
  by (simp add: PRODUCTOS_DB_def)

lemma catalog_ids:
  "map (\<lambda>kv. id_p (snd kv)) PRODUCTOS_DB = [''LPG001'', ''TEC005'', ''MON003'', ''MOU002'', ''AUR004'']"
  by (simp add: PRODUCTOS_DB_def)

lemma mouse_entry:
  "map_of PRODUCTOS_DB ''mouse gaming pro'' = Some
     \<lparr>id_p = ''MOU002'', nombre = ''Mouse Gaming Pro'', precio = 80, stock = 15,
      caracteristicas = [''16000 DPI'', ''RGB'', ''8 botones programables'',
        ''Inal'' @ [CHR 0xE1] @ ''mbrico''],
      categoria = ''Perif'' @ [CHR 0xE9] @ ''ricos'',
      descripcion = ''Mouse gaming profesional con sensor de alta precisi'' @ [CHR 0xF3] @ ''n'',
      rating = 47 / 10, reviews = 156\<rparr>"
  by (simp add: PRODUCTOS_DB_def)

lemma find_mouse:
  "find_product_fuzzy ''Mouse Gaming Pro'' =
     Some (''mouse gaming pro'', the (map_of PRODUCTOS_DB ''mouse gaming pro''))"
  by (simp add: find_product_fuzzy_def normalize_eval PRODUCTOS_DB_def)

lemma find_mouse_key:
  "find_product_fuzzy ''mouse gaming pro'' =
     Some (''mouse gaming pro'', the (map_of PRODUCTOS_DB ''mouse gaming pro''))"
  by (simp add: find_product_fuzzy_def normalize_eval PRODUCTOS_DB_def)

lemma find_xyz: "find_product_fuzzy ''xyz'' = None"
  by (simp add: difflib_eval normalize_eval PRODUCTOS_DB_def Let_def)

lemma ratio_laptop_gam_pro: "ratio ''laptop gamer pro'' ''gam pro'' = 14 / 23"
  by (simp add: ratio_eval Let_def)

lemma ratio_mouse_gam_pro: "ratio ''mouse gaming pro'' ''gam pro'' = 14 / 23"
  by (simp add: ratio_eval Let_def)

lemma find_gam_pro:
  "find_product_fuzzy ''gam pro'' =
     Some (''mouse gaming pro'', the (map_of PRODUCTOS_DB ''mouse gaming pro''))"
  by (simp add: difflib_eval normalize_eval PRODUCTOS_DB_def Let_def)

lemma add_two_mice:
  "agregar_al_carrito (g\<lparr>carrito := \<lparr>items = [], discount_code = dc\<rparr>\<rparr>) ''Mouse Gaming Pro'' 2 =
     ([(''status'', PStr ''success''),
       (''message'', PText (Agregado 2 ''Mouse Gaming Pro'')),
       (''producto_agregado'', PDict
         [(''nombre'', PStr ''Mouse Gaming Pro''),
          (''cantidad'', PInt 2),
          (''precio_unitario'', PStr ''$80.00''),
          (''subtotal'', PStr ''$160.00'')]),
       (''carrito_resumen'', PDict
         [(''total_items'', PInt 2),
          (''subtotal'', PStr ''$160.00''),
          (''envio_gratis'', PBool True)])],
      g\<lparr>carrito := \<lparr>items = [\<lparr>producto_id = ''MOU002'', item_nombre = ''Mouse Gaming Pro'',
          precio_unitario = 80, cantidad = 2, subtotal = 160\<rparr>], discount_code = dc\<rparr>\<rparr>)"
  by (simp add: agregar_al_carrito_def find_mouse mouse_entry get_cart_item_by_product_def
      new_CartItem_def Let_def get_subtotal_def SHIPPING_THRESHOLD_def format_values)

lemma two_mice_state:
  "snd (run_call initial_globals (Agregar ''Mouse Gaming Pro'' (Some 2))) =
     \<lparr>carrito = \<lparr>items = [\<lparr>producto_id = ''MOU002'', item_nombre = ''Mouse Gaming Pro'',
          precio_unitario = 80, cantidad = 2, subtotal = 160\<rparr>], discount_code = None\<rparr>,
      historial_busquedas = []\<rparr>"
  using add_two_mice[where g = initial_globals and dc = None] by (simp add: initial_globals_def)

lemma two_mice_reachable:
  "reachable \<lparr>carrito = \<lparr>items = [\<lparr>producto_id = ''MOU002'', item_nombre = ''Mouse Gaming Pro'',
          precio_unitario = 80, cantidad = 2, subtotal = 160\<rparr>], discount_code = None\<rparr>,
      historial_busquedas = []\<rparr>"
  using reachable.step[OF reachable.start, of "Agregar ''Mouse Gaming Pro'' (Some 2)"]
  by (simp only: two_mice_state)

lemma buscar_snd:
  "snd (buscar_producto_por_nombre g q) = g\<lparr>historial_busquedas := historial_busquedas g @ [q]\<rparr>"
  by (simp add: buscar_producto_por_nombre_def Let_def split: option.splits prod.splits)

section \<open>The similarity measures and the best match\<close>

subsection \<open>\<^verbatim>\<open>quick_ratio\<close> counts the common elements\<close>

lemma quick_loop_mset:
  assumes "\<forall>e. nat (case avail e of Some n \<Rightarrow> n | None \<Rightarrow> int (fb e)) = count R e"
  shows "quick_loop xs fb avail m = m + size (mset xs \<inter># R)"
  using assms
proof (induction xs arbitrary: avail m R)
  case Nil
  then show ?case by simp
next
  case (Cons elt rest)
  define numb where "numb = (case avail elt of Some n \<Rightarrow> n | None \<Rightarrow> int (fb elt))"
  have cnt: "count R elt = nat numb" using Cons.prems by (simp add: numb_def)
  show ?case
  proof (cases "numb > 0")
    case True
    then have mem: "elt \<in># R" using cnt by (simp add: count_greater_zero_iff[symmetric] del: count_greater_zero_iff)
    have inv: "\<forall>e. nat (case (avail(elt \<mapsto> numb - 1)) e of Some n \<Rightarrow> n | None \<Rightarrow> int (fb e))
        = count (R - {#elt#}) e"
      using Cons.prems cnt True by auto
    have "quick_loop (elt # rest) fb avail m = quick_loop rest fb (avail(elt \<mapsto> numb - 1)) (m + 1)"
      using True by (simp add: numb_def Let_def)
    also have "\<dots> = m + 1 + size (mset rest \<inter># (R - {#elt#}))"
      by (rule Cons.IH[OF inv])
    also have "\<dots> = m + size (mset (elt # rest) \<inter># R)"
      using mem by (simp add: inter_add_left2)
    finally show ?thesis .
  next
    case False
    then have nmem: "\<not> elt \<in># R" using cnt by (simp add: not_in_iff)
    have inv: "\<forall>e. nat (case (avail(elt \<mapsto> numb - 1)) e of Some n \<Rightarrow> n | None \<Rightarrow> int (fb e))
        = count R e"
      using Cons.prems cnt False by auto
    have "quick_loop (elt # rest) fb avail m = quick_loop rest fb (avail(elt \<mapsto> numb - 1)) m"
      using False by (simp add: numb_def Let_def)
    also have "\<dots> = m + size (mset rest \<inter># R)"
      by (rule Cons.IH[OF inv])
    also have "\<dots> = m + size (mset (elt # rest) \<inter># R)"
      using nmem by (simp add: inter_add_left1)
    finally show ?thesis .
  qed
qed

lemma quick_matches: "quick_loop a (count_list b) Map.empty 0 = size (mset a \<inter># mset b)"
  using quick_loop_mset[where avail = Map.empty and fb = "count_list b" and R = "mset b" and xs = a and m = 0]
  by (simp add: count_mset)

lemma quick_matches_le_min: "quick_loop a (count_list b) Map.empty 0 \<le> min (length a) (length b)"
proof -
  have "size (mset a \<inter># mset b) \<le> size (mset a)" by (intro size_mset_mono) simp
  moreover have "size (mset a \<inter># mset b) \<le> size (mset b)" by (intro size_mset_mono) simp
  ultimately show ?thesis by (simp add: quick_matches)
qed

lemma calculate_ratio_mono: "m \<le> n \<Longrightarrow> calculate_ratio m len \<le> calculate_ratio n len"
  by (simp add: calculate_ratio_def divide_right_mono)

lemma quick_ratio_le_real_quick_ratio: "quick_ratio a b \<le> real_quick_ratio a b"
  unfolding quick_ratio_def real_quick_ratio_def Let_def
  by (rule calculate_ratio_mono) (rule quick_matches_le_min)

subsection \<open>The matching blocks are disjoint runs of common elements\<close>

lemma slice_split:
  assumes "lo \<le> mid" "mid \<le> hi"
  shows "slice xs lo hi = slice xs lo mid @ slice xs mid hi"
proof -
  have "hi - lo = (mid - lo) + (hi - mid)" using assms by simp
  then have "take (hi - lo) (drop lo xs) =
      take (mid - lo) (drop lo xs) @ take (hi - mid) (drop (mid - lo) (drop lo xs))"
    by (simp only: take_add)
  then show ?thesis using assms by (simp add: slice_def)
qed

lemma slice_match:
  assumes "i + k \<le> length a" "j + k \<le> length b" "\<forall>t<k. a ! (i + t) = b ! (j + t)"
  shows "slice a i (i + k) = slice b j (j + k)"
  using assms by (intro nth_equalityI) (auto simp: slice_def)

lemma slice_all: "slice xs 0 (length xs) = xs"
  by (simp add: slice_def)

lemma inter_mset_sandwich:
  "(X1 \<inter># Y1) + M + (X2 \<inter># Y2) \<subseteq># (X1 + M + X2) \<inter># (Y1 + M + Y2)"
  by (rule mset_subset_eqI) (auto simp: min_def)

lemma window_cap_split:
  assumes "window_ok a b (alo, ahi, blo, bhi)" and "is_match a b alo ahi blo bhi (i, j, k)"
  shows "window_cap a b (alo, i, blo, j) + k + window_cap a b (i + k, ahi, j + k, bhi)
         \<le> window_cap a b (alo, ahi, blo, bhi)"
proof -
  from assms have b: "alo \<le> i" "i + k \<le> ahi" "ahi \<le> length a" "blo \<le> j" "j + k \<le> bhi"
    "bhi \<le> length b" and eq: "\<forall>t<k. a ! (i + t) = b ! (j + t)"
    by (auto simp: window_ok_def is_match_def)
  have m: "slice a i (i + k) = slice b j (j + k)"
    using b eq by (intro slice_match) auto
  have sa: "slice a alo ahi = slice a alo i @ slice a i (i + k) @ slice a (i + k) ahi"
    using b slice_split[of alo i ahi a] slice_split[of i "i + k" ahi a] by simp
  have sb: "slice b blo bhi = slice b blo j @ slice b j (j + k) @ slice b (j + k) bhi"
    using b slice_split[of blo j bhi b] slice_split[of j "j + k" bhi b] by simp
  have k: "length (slice b j (j + k)) = k"
    using b by (simp add: slice_def)
  have "size ((mset (slice a alo i) \<inter># mset (slice b blo j)) + mset (slice b j (j + k))
          + (mset (slice a (i + k) ahi) \<inter># mset (slice b (j + k) bhi)))
        \<le> size ((mset (slice a alo i) + mset (slice b j (j + k)) + mset (slice a (i + k) ahi))
              \<inter># (mset (slice b blo j) + mset (slice b j (j + k)) + mset (slice b (j + k) bhi)))"
    by (intro size_mset_mono inter_mset_sandwich)
  then show ?thesis
    unfolding window_cap_def prod.case sa sb m
    by (simp add: k ac_simps)
qed

lemma matching_loop_sum:
  assumes "\<forall>w\<in>set queue. window_ok a b w"
  shows "sum_list (map block_size (matching_loop a b queue blocks))
         \<le> sum_list (map block_size blocks) + sum_list (map (window_cap a b) queue)"
  using assms
proof (induction a b queue blocks rule: matching_loop.induct)
  case (1 a b blocks)
  then show ?case by (simp add: matching_loop.simps)
next
  case (2 a b alo ahi blo bhi queue blocks)
  obtain i j k where f: "find_longest_match a b alo ahi blo bhi = (i, j, k)"
    by (cases "find_longest_match a b alo ahi blo bhi") auto
  have w: "window_ok a b (alo, ahi, blo, bhi)" and rest: "\<forall>w\<in>set queue. window_ok a b w"
    using "2.prems" by auto
  show ?case
  proof (cases "k \<noteq> 0")
    case True
    have good: "is_match a b alo ahi blo bhi (i, j, k)"
      using find_longest_match_good[of a b alo ahi blo bhi] f True by (simp add: flm_good_def)
    then have b: "alo \<le> i" "i + k \<le> ahi" "blo \<le> j" "j + k \<le> bhi"
      by (auto simp: is_match_def)
    let ?right = "if i + k < ahi \<and> j + k < bhi then [(i + k, ahi, j + k, bhi)] else []"
    let ?left = "if alo < i \<and> blo < j then [(alo, i, blo, j)] else []"
    have ok: "\<forall>w\<in>set (?right @ ?left @ queue). window_ok a b w"
      using w rest b by (auto simp: window_ok_def)
    have ih: "sum_list (map block_size (matching_loop a b (?right @ ?left @ queue) (blocks @ [(i, j, k)])))
        \<le> sum_list (map block_size (blocks @ [(i, j, k)]))
          + sum_list (map (window_cap a b) (?right @ ?left @ queue))"
      using "2.IH"(1)[OF f[symmetric] refl True ok] .
    have caps: "sum_list (map (window_cap a b) (?right @ ?left @ queue))
        \<le> window_cap a b (alo, i, blo, j) + window_cap a b (i + k, ahi, j + k, bhi)
          + sum_list (map (window_cap a b) queue)"
      by simp
    have blk: "sum_list (map block_size (blocks @ [(i, j, k)])) = sum_list (map block_size blocks) + k"
      by (simp add: block_size_def)
    have step: "matching_loop a b ((alo, ahi, blo, bhi) # queue) blocks
        = matching_loop a b (?right @ ?left @ queue) (blocks @ [(i, j, k)])"
      using f True by (simp add: matching_loop.simps)
    have "sum_list (map (window_cap a b) ((alo, ahi, blo, bhi) # queue))
        = window_cap a b (alo, ahi, blo, bhi) + sum_list (map (window_cap a b) queue)"
      by simp
    with ih caps blk window_cap_split[OF w good] show ?thesis
      unfolding step by linarith
  next
    case False
    have "matching_loop a b ((alo, ahi, blo, bhi) # queue) blocks = matching_loop a b queue blocks"
      using f False by (simp add: matching_loop.simps)
    with "2.IH"(2)[OF f[symmetric] refl False rest] show ?thesis by simp
  qed
qed

lemma collapse_loop_sum:
  "sum_list (map block_size (collapse_loop xs m acc))
     = sum_list (map block_size acc) + block_size m + sum_list (map block_size xs)"
  by (induction xs m acc rule: collapse_loop.induct) (auto simp: block_size_def)

lemma sum_list_sort: "sum_list (map f (sort xs)) = sum_list (map (f :: 'a::linorder \<Rightarrow> nat) xs)"
proof -
  have "sum_list (map f (sort xs)) = sum_mset (image_mset f (mset (sort xs)))"
    by (simp only: sum_mset_sum_list[symmetric] mset_map)
  also have "\<dots> = sum_mset (image_mset f (mset xs))" by simp
  also have "\<dots> = sum_list (map f xs)"
    by (simp only: sum_mset_sum_list[symmetric] mset_map)
  finally show ?thesis .
qed

lemma ratio_matches_le:
  "sum_list (map (\<lambda>(i, j, k). k) (get_matching_blocks a b)) \<le> size (mset a \<inter># mset b)"
proof -
  have e: "(\<lambda>(i, j, k). k) = block_size" by (auto simp: block_size_def)
  have "sum_list (map block_size (get_matching_blocks a b))
      = sum_list (map block_size (matching_loop a b [(0, length a, 0, length b)] []))"
    by (simp add: get_matching_blocks_def Let_def collapse_loop_sum sum_list_sort)
       (simp add: block_size_def)
  also have "\<dots> \<le> window_cap a b (0, length a, 0, length b)"
    using matching_loop_sum[of "[(0, length a, 0, length b)]" a b "[]"]
    by (simp add: window_ok_def)
  also have "\<dots> = size (mset a \<inter># mset b)"
    by (simp add: window_cap_def slice_all)
  finally show ?thesis by (simp add: e)
qed

lemma ratio_le_quick_ratio: "ratio a b \<le> quick_ratio a b"
  unfolding ratio_def quick_ratio_def Let_def
  by (rule calculate_ratio_mono) (simp add: quick_matches ratio_matches_le)

subsection \<open>The best match is the greatest pair of score and key\<close>

lemma py_max_mem: "py_max best xs \<in> set (best # xs)"
  by (induction xs arbitrary: best) (auto split: if_splits)

lemma nlargest1_subset: "set (nlargest1 xs) \<subseteq> set xs"
  using py_max_mem by (fastforce simp: nlargest1_def split: list.splits)

lemma get_close_matches1_subset:
  "set (get_close_matches1 word possibilities cutoff) \<subseteq> set possibilities"
proof -
  have "snd ` set (close_candidates word possibilities cutoff) \<subseteq> set possibilities"
    by (auto simp: close_candidates_def)
  then show ?thesis
    using nlargest1_subset[of "close_candidates word possibilities cutoff"]
    by (auto simp: get_close_matches1_def)
qed

lemma py_max_fold: "py_max best xs = fold max xs best"
  by (induction xs arbitrary: best) (auto simp: max_def)

lemma py_max_Max: "py_max best xs = Max (set (best # xs))"
  by (simp only: py_max_fold Max.set_eq_fold)

lemma nlargest1_Max: "xs \<noteq> [] \<Longrightarrow> nlargest1 xs = [Max (set xs)]"
  by (cases xs) (simp_all add: nlargest1_def py_max_Max del: set_simps)

lemma close_candidates_ratio:
  "close_candidates word possibilities cutoff =
     map (\<lambda>x. (ratio x word, x)) (filter (\<lambda>x. cutoff \<le> ratio x word) possibilities)"
proof -
  have "(cutoff \<le> real_quick_ratio x word \<and> cutoff \<le> quick_ratio x word \<and> cutoff \<le> ratio x word)
      = (cutoff \<le> ratio x word)" for x
    using ratio_le_quick_ratio[of x word] quick_ratio_le_real_quick_ratio[of x word] by auto
  then show ?thesis by (simp add: close_candidates_def)
qed

lemma get_close_matches1_None:
  "get_close_matches1 word possibilities cutoff = []
     \<longleftrightarrow> (\<forall>k\<in>set possibilities. ratio k word < cutoff)"
proof -
  let ?f = "filter (\<lambda>x. cutoff \<le> ratio x word) possibilities"
  have "get_close_matches1 word possibilities cutoff = [] \<longleftrightarrow> ?f = []"
    by (cases ?f) (simp_all add: get_close_matches1_def nlargest1_def close_candidates_ratio)
  also have "\<dots> \<longleftrightarrow> (\<forall>k\<in>set possibilities. ratio k word < cutoff)"
    by (simp add: filter_empty_conv not_le)
  finally show ?thesis .
qed

lemma get_close_matches1_Some:
  "get_close_matches1 word possibilities cutoff = key # rest \<longleftrightarrow>
     rest = [] \<and> key \<in> set possibilities \<and> cutoff \<le> ratio key word
     \<and> (\<forall>k\<in>set possibilities. cutoff \<le> ratio k word \<longrightarrow>
          ratio k word < ratio key word \<or> (ratio k word = ratio key word \<and> k \<le> key))"
  (is "?L \<longleftrightarrow> ?R")
proof -
  let ?cs = "map (\<lambda>x. (ratio x word, x)) (filter (\<lambda>x. cutoff \<le> ratio x word) possibilities)"
  have le: "(p \<le> (ratio key word, key)) =
      (fst p < ratio key word \<or> (fst p = ratio key word \<and> snd p \<le> key))" for p :: "rat \<times> string"
    by (cases p) (auto simp: less_eq_prod_def)
  show ?thesis
  proof (cases "?cs = []")
    case True
    then have "get_close_matches1 word possibilities cutoff = []"
      by (simp add: get_close_matches1_def nlargest1_def close_candidates_ratio)
    moreover from True have "\<forall>k\<in>set possibilities. \<not> cutoff \<le> ratio k word"
      by (auto simp: filter_empty_conv)
    ultimately show ?thesis by auto
  next
    case False
    then have g: "get_close_matches1 word possibilities cutoff = [snd (Max (set ?cs))]"
      by (simp add: get_close_matches1_def close_candidates_ratio nlargest1_Max)
    have fin1: "finite (set ?cs)" by (rule finite_set)
    have fin2: "set ?cs \<noteq> {}" using False by (simp only: set_empty simp_thms)
    note fin = fin1 fin2
    show ?thesis
    proof
      assume ?L
      with g have k: "key = snd (Max (set ?cs))" and r: "rest = []" by auto
      have mem: "Max (set ?cs) \<in> set ?cs" using fin by (rule Max_in)
      then have m: "Max (set ?cs) = (ratio key word, key)" "key \<in> set possibilities"
        "cutoff \<le> ratio key word"
        using k by auto
      have "\<forall>c\<in>set ?cs. c \<le> (ratio key word, key)"
      proof
        fix c assume "c \<in> set ?cs"
        from Max_ge[OF fin1 this] show "c \<le> (ratio key word, key)" by (simp only: m(1))
      qed
      then have "\<forall>k\<in>set possibilities. cutoff \<le> ratio k word \<longrightarrow>
          ratio k word < ratio key word \<or> (ratio k word = ratio key word \<and> k \<le> key)"
        by (auto simp: le)
      with r m show ?R by simp
    next
      assume R: ?R
      then have mem: "(ratio key word, key) \<in> set ?cs" by auto
      have "\<forall>c\<in>set ?cs. c \<le> (ratio key word, key)"
        using R by (auto simp: le)
      then have "Max (set ?cs) = (ratio key word, key)"
        using mem fin by (intro Max_eqI) auto
      with g R show ?L by simp
    qed
  qed
qed

lemma find_product_fuzzy_in_db:
  assumes "find_product_fuzzy q = Some (key, p)"
  shows "map_of PRODUCTOS_DB key = Some p"
proof (cases "map_of PRODUCTOS_DB (py_lower (py_strip q))")
  case (Some p')
  with assms show ?thesis by (simp add: find_product_fuzzy_def)
next
  case None
  with assms obtain rest where
    m: "get_close_matches1 (py_lower (py_strip q)) (map fst PRODUCTOS_DB) (6 / 10) = key # rest"
    and p: "p = the (map_of PRODUCTOS_DB key)"
    by (auto simp: find_product_fuzzy_def Let_def split: list.splits)
  from m have "key \<in> set (map fst PRODUCTOS_DB)"
    using get_close_matches1_subset[of "py_lower (py_strip q)" "map fst PRODUCTOS_DB" "6 / 10"]
    by auto
  then obtain p' where "map_of PRODUCTOS_DB key = Some p'"
    by (metis map_of_eq_None_iff not_Some_eq set_map)
  with p show ?thesis by simp
qed

section \<open>The cart\<close>

subsection \<open>The catalogue\<close>

lemma catalog_ids_unique:
  assumes "(k1, p1) \<in> set PRODUCTOS_DB" "(k2, p2) \<in> set PRODUCTOS_DB" "id_p p1 = id_p p2"
  shows "p1 = p2"
proof -
  have "distinct (map (\<lambda>kv. id_p (snd kv)) PRODUCTOS_DB)"
    unfolding catalog_ids by simp
  then have "inj_on (\<lambda>kv. id_p (snd kv)) (set PRODUCTOS_DB)"
    by (simp add: distinct_map)
  from inj_onD[OF this, of "(k1, p1)" "(k2, p2)"] assms show ?thesis by simp
qed

lemma catalog_stock_nonneg: "(k, p) \<in> set PRODUCTOS_DB \<Longrightarrow> 0 \<le> stock p"
  by (auto simp: PRODUCTOS_DB_def)

subsection \<open>Lines of the cart\<close>

lemma update_first_map:
  "(\<And>x. g (f x) = g x) \<Longrightarrow> map g (update_first P f xs) = map g xs"
  by (induction xs) auto

lemma update_first_set:
  "find P xs = Some y \<Longrightarrow> set (update_first P f xs) \<subseteq> insert (f y) (set xs)"
  by (induction xs) (auto split: if_splits)

lemma find_Some_props: "find P xs = Some y \<Longrightarrow> y \<in> set xs \<and> P y"
  by (induction xs) (auto split: if_splits)

lemma find_None_props: "find P xs = None \<Longrightarrow> x \<in> set xs \<Longrightarrow> \<not> P x"
  by (induction xs) (auto split: if_splits)

lemma find_update_first:
  "find P xs = Some y \<Longrightarrow> P (f y) \<Longrightarrow> find P (update_first P f xs) = Some (f y)"
  by (induction xs) (auto split: if_splits)

lemma distinct_map_remove1: "distinct (map f xs) \<Longrightarrow> distinct (map f (remove1 x xs))"
proof (induction xs)
  case Nil
  then show ?case by simp
next
  case (Cons y ys)
  have "set (remove1 x ys) \<subseteq> set ys" by (rule set_remove1_subset)
  with Cons show ?case by auto
qed

lemma find_remove1_distinct:
  assumes "find (\<lambda>x. f x = k) xs = Some y" and "distinct (map f xs)"
  shows "find (\<lambda>x. f x = k) (remove1 y xs) = None"
proof -
  from find_Some_props[OF assms(1)] have y: "y \<in> set xs" "f y = k" by auto
  have "\<forall>x\<in>set (remove1 y xs). f x \<noteq> k"
  proof
    fix x assume x: "x \<in> set (remove1 y xs)"
    have "distinct xs" using assms(2) by (simp add: distinct_map)
    with x have "x \<in> set xs" "x \<noteq> y" by auto
    with assms(2) y show "f x \<noteq> k" by (auto simp: distinct_map dest: inj_onD)
  qed
  then show ?thesis by (simp add: find_None_iff)
qed

subsection \<open>The tools keep the invariant\<close>

lemma cart_inv_agregar:
  assumes "cart_inv (carrito g)"
  shows "cart_inv (carrito (snd (agregar_al_carrito g producto n)))"
proof (cases "n \<le> 0")
  case True
  with assms show ?thesis by (simp add: agregar_al_carrito_def)
next
  case npos: False
  show ?thesis
  proof (cases "find_product_fuzzy producto")
    case None
    with assms npos show ?thesis by (simp add: agregar_al_carrito_def)
  next
    case (Some kp)
    obtain key p where kp: "kp = (key, p)" by (cases kp) auto
    from Some kp have indb: "(key, p) \<in> set PRODUCTOS_DB"
      using find_product_fuzzy_in_db map_of_SomeD by fastforce
    let ?P = "\<lambda>item. producto_id item = id_p p"
    show ?thesis
    proof (cases "find ?P (items (carrito g))")
      case None
      show ?thesis
      proof (cases "0 + n > stock p")
        case True
        with assms npos Some kp None show ?thesis
          by (simp add: agregar_al_carrito_def get_cart_item_by_product_def Let_def)
      next
        case False
        let ?new = "new_CartItem (id_p p) (nombre p) (precio p) n"
        have its: "items (carrito (snd (agregar_al_carrito g producto n))) = items (carrito g) @ [?new]"
          using npos Some kp None False
          by (simp add: agregar_al_carrito_def get_cart_item_by_product_def Let_def)
        have fresh: "id_p p \<notin> set (map producto_id (items (carrito g)))"
        proof
          assume "id_p p \<in> set (map producto_id (items (carrito g)))"
          then obtain x where "x \<in> set (items (carrito g))" "producto_id x = id_p p" by auto
          with find_None_props[OF None] show False by blast
        qed
        have "\<forall>(key', p')\<in>set PRODUCTOS_DB. producto_id ?new = id_p p' \<longrightarrow> cantidad ?new \<le> stock p'"
          using False catalog_ids_unique[OF indb] by (auto simp: new_CartItem_def)
        with assms npos fresh show ?thesis
          unfolding cart_inv_def its by (auto simp: new_CartItem_def)
      qed
    next
      case (Some it)
      note fnd = find_Some_props[OF Some]
      show ?thesis
      proof (cases "cantidad it + n > stock p")
        case True
        with assms npos \<open>find_product_fuzzy producto = Some kp\<close> kp Some show ?thesis
          by (simp add: agregar_al_carrito_def get_cart_item_by_product_def Let_def)
      next
        case False
        let ?f = "\<lambda>item. item\<lparr>cantidad := cantidad item + n,
                      subtotal := precio_unitario item * of_int (cantidad item + n)\<rparr>"
        have its: "items (carrito (snd (agregar_al_carrito g producto n))) =
            update_first ?P ?f (items (carrito g))"
          using npos \<open>find_product_fuzzy producto = Some kp\<close> kp Some False
          by (simp add: agregar_al_carrito_def get_cart_item_by_product_def Let_def)
        have sub: "set (update_first ?P ?f (items (carrito g))) \<subseteq> insert (?f it) (set (items (carrito g)))"
          by (rule update_first_set[OF Some])
        have ids: "map producto_id (update_first ?P ?f (items (carrito g))) = map producto_id (items (carrito g))"
          by (rule update_first_map) simp
        have old: "0 < cantidad it" using assms fnd by (auto simp: cart_inv_def)
        have new1: "0 < cantidad (?f it) \<and> subtotal (?f it) = precio_unitario (?f it) * of_int (cantidad (?f it))"
          using old npos by simp
        have new2: "\<forall>(key', p')\<in>set PRODUCTOS_DB. producto_id (?f it) = id_p p' \<longrightarrow> cantidad (?f it) \<le> stock p'"
          using False fnd catalog_ids_unique[OF indb] by auto
        show ?thesis
          unfolding cart_inv_def its ids
          using assms sub new1 new2 unfolding cart_inv_def by blast
      qed
    qed
  qed
qed

lemma cart_inv_remover:
  assumes "cart_inv (carrito g)"
  shows "cart_inv (carrito (snd (remover_del_carrito g producto q)))"
proof (cases "find_product_fuzzy producto")
  case None
  with assms show ?thesis by (simp add: remover_del_carrito_def)
next
  case (Some kp)
  obtain key p where kp: "kp = (key, p)" by (cases kp) auto
  let ?P = "\<lambda>item. producto_id item = id_p p"
  show ?thesis
  proof (cases "find ?P (items (carrito g))")
    case None
    with assms Some kp show ?thesis
      by (simp add: remover_del_carrito_def get_cart_item_by_product_def)
  next
    case fnd: (Some it)
    note props = find_Some_props[OF fnd]
    consider (all) "q = None \<or> the q \<ge> cantidad it"
      | (part) "\<not> (q = None \<or> the q \<ge> cantidad it)" "the q > 0"
      | (bad) "\<not> (q = None \<or> the q \<ge> cantidad it)" "\<not> the q > 0"
      by blast
    then show ?thesis
    proof cases
      case all
      then have its: "items (carrito (snd (remover_del_carrito g producto q))) = remove1 it (items (carrito g))"
        using Some kp fnd by (simp add: remover_del_carrito_def get_cart_item_by_product_def)
      have "set (remove1 it (items (carrito g))) \<subseteq> set (items (carrito g))"
        by (rule set_remove1_subset)
      moreover have "distinct (map producto_id (remove1 it (items (carrito g))))"
        using assms by (simp add: cart_inv_def distinct_map_remove1)
      ultimately show ?thesis
        using assms unfolding cart_inv_def its by blast
    next
      case part
      let ?f = "\<lambda>item. item\<lparr>cantidad := cantidad item - the q,
                      subtotal := precio_unitario item * of_int (cantidad item - the q)\<rparr>"
      from part obtain y where y: "q = Some y" by auto
      have its: "items (carrito (snd (remover_del_carrito g producto q))) =
            update_first ?P ?f (items (carrito g))"
        using part Some kp fnd unfolding y
        by (simp add: remover_del_carrito_def get_cart_item_by_product_def)
      have sub: "set (update_first ?P ?f (items (carrito g))) \<subseteq> insert (?f it) (set (items (carrito g)))"
        by (rule update_first_set[OF fnd])
      have ids: "map producto_id (update_first ?P ?f (items (carrito g))) = map producto_id (items (carrito g))"
        by (rule update_first_map) simp
      have new1: "0 < cantidad (?f it) \<and> subtotal (?f it) = precio_unitario (?f it) * of_int (cantidad (?f it))"
        using part by simp
      have new2: "\<forall>(key', p')\<in>set PRODUCTOS_DB. producto_id (?f it) = id_p p' \<longrightarrow> cantidad (?f it) \<le> stock p'"
        using assms props part unfolding cart_inv_def by fastforce
      show ?thesis
        unfolding cart_inv_def its ids
        using assms sub new1 new2 unfolding cart_inv_def by blast
    next
      case bad
      then obtain y where "q = Some y" by auto
      with bad assms Some kp fnd show ?thesis
        by (simp add: remover_del_carrito_def get_cart_item_by_product_def)
    qed
  qed
qed

lemma cart_inv_run_call:
  assumes "cart_inv (carrito g)"
  shows "cart_inv (carrito (snd (run_call g c)))"
proof (cases c)
  case (Buscar q)
  with assms show ?thesis
    by (simp add: buscar_producto_por_nombre_def Let_def split: option.splits prod.splits)
next
  case (Agregar p n)
  with assms show ?thesis by (simp add: cart_inv_agregar)
next
  case Ver
  with assms show ?thesis by (simp add: ver_carrito_def Let_def)
next
  case (Descuento code)
  with assms show ?thesis
    by (simp add: aplicar_descuento_def Let_def cart_inv_def split: option.splits)
next
  case (Remover p n)
  with assms show ?thesis by (simp add: cart_inv_remover)
next
  case Vaciar
  then show ?thesis by (simp add: vaciar_carrito_def Let_def cart_inv_def)
next
  case Total
  with assms show ?thesis by (simp add: calcular_total_def Let_def)
next
  case (Recomendar cat)
  with assms show ?thesis by (simp add: recomendar_productos_def Let_def)
next
  case Historial
  with assms show ?thesis by (simp add: mostrar_historial_busquedas_def)
qed

lemma reachable_cart_inv: "reachable g \<Longrightarrow> cart_inv (carrito g)"
proof (induction rule: reachable.induct)
  case start
  show ?case by (simp add: initial_globals_def cart_inv_def)
next
  case (step g c)
  then show ?case by (simp add: cart_inv_run_call)
qed

subsection \<open>The discount code\<close>

lemma discount_code_nonempty: "map_of DISCOUNT_CODES code = Some rate \<Longrightarrow> code \<noteq> []"
  by (auto simp: DISCOUNT_CODES_def split: if_splits)

lemma discount_amount_valid:
  "discount_code c = Some code \<Longrightarrow> map_of DISCOUNT_CODES code = Some rate \<Longrightarrow>
     get_discount_amount c = get_subtotal c * rate"
  using discount_code_nonempty[of code rate] by (simp add: get_discount_amount_def)

lemma agregar_discount_code:
  "discount_code (carrito (snd (agregar_al_carrito g producto n))) = discount_code (carrito g)"
  by (simp add: agregar_al_carrito_def Let_def split: option.splits prod.splits)

lemma remover_discount_code:
  "discount_code (carrito (snd (remover_del_carrito g producto q))) = discount_code (carrito g)"
  by (simp add: remover_del_carrito_def split: option.splits prod.splits)

subsection \<open>Status and message of the results\<close>

lemma status_buscar: "has_status (fst (buscar_producto_por_nombre g q)) \<and> has_message (fst (buscar_producto_por_nombre g q))"
  by (simp add: buscar_producto_por_nombre_def Let_def has_status_def has_message_def is_text_def
      split: option.splits prod.splits)

lemma status_agregar: "has_status (fst (agregar_al_carrito g p n)) \<and> has_message (fst (agregar_al_carrito g p n))"
  by (simp add: agregar_al_carrito_def Let_def has_status_def has_message_def is_text_def
      split: option.splits prod.splits)

lemma status_descuento: "has_status (fst (aplicar_descuento g c)) \<and> has_message (fst (aplicar_descuento g c))"
  by (simp add: aplicar_descuento_def Let_def has_status_def has_message_def is_text_def
      split: option.splits prod.splits)

lemma status_remover: "has_status (fst (remover_del_carrito g p n)) \<and> has_message (fst (remover_del_carrito g p n))"
  by (simp add: remover_del_carrito_def Let_def has_status_def has_message_def is_text_def
      split: option.splits prod.splits)

lemma status_vaciar: "has_status (fst (vaciar_carrito g)) \<and> has_message (fst (vaciar_carrito g))"
  by (simp add: vaciar_carrito_def Let_def has_status_def has_message_def is_text_def)

lemma status_ver:
  "has_status (fst (ver_carrito g))
   \<and> (map_of (fst (ver_carrito g)) ''status'' \<noteq> Some (PStr ''success'') \<longrightarrow> has_message (fst (ver_carrito g)))"
  by (simp add: ver_carrito_def Let_def has_status_def has_message_def is_text_def)

lemma status_total:
  "has_status (fst (calcular_total g))
   \<and> (map_of (fst (calcular_total g)) ''status'' \<noteq> Some (PStr ''success'') \<longrightarrow> has_message (fst (calcular_total g)))"
  by (simp add: calcular_total_def Let_def has_status_def has_message_def is_text_def)

lemma status_recomendar:
  "has_status (fst (recomendar_productos g c))
   \<and> (map_of (fst (recomendar_productos g c)) ''status'' \<noteq> Some (PStr ''success'') \<longrightarrow> has_message (fst (recomendar_productos g c)))"
  by (simp add: recomendar_productos_def Let_def has_status_def has_message_def is_text_def)

lemma status_historial:
  "has_status (fst (mostrar_historial_busquedas g))
   \<and> (map_of (fst (mostrar_historial_busquedas g)) ''status'' \<noteq> Some (PStr ''success'') \<longrightarrow> has_message (fst (mostrar_historial_busquedas g)))"
  by (simp add: mostrar_historial_busquedas_def Let_def has_status_def has_message_def is_text_def)

section \<open>The claims\<close>

text \<open>
  C1. For every cart, \<^verbatim>\<open>get_total\<close> returns subtotal - discount + tax + shipping, where
  the subtotal is the sum of the lines' subtotals; the discount is the subtotal times the
  rate of the cart's discount code when the code is set and is in the table, and 0
  otherwise; the tax is 8 per cent of the subtotal after the discount; and the shipping is
  0 when the subtotal before the discount is at least 100, and 10 otherwise.
\<close>

theorem C1_total_formula:
  "get_total c = get_subtotal c - get_discount_amount c + get_tax c + get_shipping c
   \<and> get_subtotal c = sum_list (map subtotal (items c))
   \<and> get_discount_amount c =
       (case discount_code c of
          None \<Rightarrow> 0
        | Some code \<Rightarrow>
            (case map_of DISCOUNT_CODES code of
               Some rate \<Rightarrow> get_subtotal c * rate
             | None \<Rightarrow> 0))
   \<and> get_tax c = (get_subtotal c - get_discount_amount c) * (8 / 100)
   \<and> get_shipping c = (if get_subtotal c \<ge> 100 then 0 else 10)"
proof -
  have "get_total c = get_subtotal c - get_discount_amount c + get_tax c + get_shipping c"
    by (simp add: get_total_def)
  moreover have "get_subtotal c = sum_list (map subtotal (items c))"
    by (simp add: get_subtotal_def)
  moreover have "get_discount_amount c =
       (case discount_code c of
          None \<Rightarrow> 0
        | Some code \<Rightarrow>
            (case map_of DISCOUNT_CODES code of
               Some rate \<Rightarrow> get_subtotal c * rate
             | None \<Rightarrow> 0))"
    by (simp add: get_discount_amount_def DISCOUNT_CODES_def split: option.splits)
  moreover have "get_tax c = (get_subtotal c - get_discount_amount c) * (8 / 100)"
    by (simp add: get_tax_def TAX_RATE_def)
  moreover have "get_shipping c = (if get_subtotal c \<ge> 100 then 0 else 10)"
    by (simp add: get_shipping_def SHIPPING_THRESHOLD_def SHIPPING_COST_def)
  ultimately show ?thesis by blast
qed

text \<open>
  C2, as stated, fails: after two units of "Mouse Gaming Pro" are added to the empty cart
  of the initial globals, the subtotal 160 is not below the threshold 100, so the shipping
  is not 10 and the total is not 182.80.
\<close>

theorem C2_shipping_counterexample:
  "\<not> (get_subtotal (carrito (snd (agregar_al_carrito initial_globals ''Mouse Gaming Pro'' 2))) = 160
      \<and> get_shipping (carrito (snd (agregar_al_carrito initial_globals ''Mouse Gaming Pro'' 2))) = 10
      \<and> get_tax (carrito (snd (agregar_al_carrito initial_globals ''Mouse Gaming Pro'' 2))) = 128 / 10
      \<and> get_total (carrito (snd (agregar_al_carrito initial_globals ''Mouse Gaming Pro'' 2))) = 1828 / 10)"
proof -
  have "initial_globals = initial_globals\<lparr>carrito := \<lparr>items = [], discount_code = None\<rparr>\<rparr>"
    by (simp add: initial_globals_def)
  then have "get_shipping (carrito (snd (agregar_al_carrito initial_globals ''Mouse Gaming Pro'' 2))) = 0"
    using add_two_mice[where g = initial_globals and dc = None] by (simp add: pricing_defs)
  then show ?thesis by simp
qed

text \<open>
  C2, amended. Starting from a cart with no lines and no discount code, adding
  2 units of "Mouse Gaming Pro" (unit price 80, stock 15) succeeds and leaves one line of
  quantity 2 and subtotal 160; then the subtotal is 160, the shipping is 0 (160 reaches
  the threshold 100 of free shipping), the tax is 12.80 and the total is 172.80, and
  \<^verbatim>\<open>ver_carrito\<close> shows these amounts and does not change the globals.
\<close>

theorem C2_two_mice_amended:
  "(case agregar_al_carrito (g\<lparr>carrito := \<lparr>items = [], discount_code = None\<rparr>\<rparr>) ''Mouse Gaming Pro'' 2 of
      (r1, g1) \<Rightarrow>
        (case ver_carrito g1 of
           (r2, g2) \<Rightarrow>
             map_of r1 ''status'' = Some (PStr ''success'')
             \<and> items (carrito g1) =
                 [\<lparr>producto_id = ''MOU002'', item_nombre = ''Mouse Gaming Pro'',
                   precio_unitario = 80, cantidad = 2, subtotal = 160\<rparr>]
             \<and> get_subtotal (carrito g1) = 160
             \<and> get_shipping (carrito g1) = 0
             \<and> get_tax (carrito g1) = 128 / 10
             \<and> get_total (carrito g1) = 1728 / 10
             \<and> map_of r2 ''status'' = Some (PStr ''success'')
             \<and> map_of r2 ''calculos'' = Some (PDict
                  [(''subtotal'', PStr ''$160.00''),
                   (''descuento'', PNone),
                   (''codigo_descuento'', PNone),
                   (''impuestos'', PStr ''$12.80''),
                   (''envio'', PStr ''$0.00''),
                   (''envio_gratis'', PBool True),
                   (''total'', PStr ''$172.80'')])
             \<and> g2 = g1))"
  apply (simp only: add_two_mice prod.case)
  apply (simp add: ver_carrito_def pricing_defs Let_def format_values)
  done

text \<open>
  C3, as stated, fails on a tie. The query \<^verbatim>\<open>gam pro\<close> is no key of the catalogue; the
  keys \<^verbatim>\<open>laptop gamer pro\<close> and \<^verbatim>\<open>mouse gaming pro\<close> both score 14/23, which is above
  0.6, and the first of the two in the order of the catalogue is \<^verbatim>\<open>laptop gamer pro\<close>;
  the resolver returns \<^verbatim>\<open>mouse gaming pro\<close>.
\<close>

theorem C3_tie_counterexample:
  "py_lower (py_strip ''gam pro'') = ''gam pro''
   \<and> map_of PRODUCTOS_DB ''gam pro'' = None
   \<and> map fst PRODUCTOS_DB =
       [''laptop gamer pro'', ''teclado mecanico rgb'', ''monitor 4k hdr'', ''mouse gaming pro'',
        ''auriculares 7.1'']
   \<and> ratio ''laptop gamer pro'' ''gam pro'' = 14 / 23
   \<and> ratio ''mouse gaming pro'' ''gam pro'' = 14 / 23
   \<and> (6 / 10 :: rat) \<le> 14 / 23
   \<and> find_product_fuzzy ''gam pro'' =
       Some (''mouse gaming pro'', the (map_of PRODUCTOS_DB ''mouse gaming pro''))
   \<and> fst (the (find_product_fuzzy ''gam pro'')) \<noteq> ''laptop gamer pro''"
  by (simp add: normalize_gam_pro catalog_keys ratio_laptop_gam_pro ratio_mouse_gam_pro find_gam_pro)
     (simp add: PRODUCTOS_DB_def)

text \<open>
  C3, amended. The resolver strips the query and puts it in lower case. When the result is
  a key of the catalogue, it returns that entry. Otherwise it reports not-found exactly
  when every key has a \<^verbatim>\<open>ratio\<close> below 0.6 to the normalised query; and it returns the
  entry of \<open>key\<close> exactly when \<open>key\<close> is a key of the catalogue whose ratio is at least
  0.6 and every other key with a ratio of at least 0.6 has a smaller ratio, or the same
  ratio and comes before \<open>key\<close> in the lexicographic order of strings: among the keys
  of the highest ratio, the greatest string wins, not the first of the catalogue.
\<close>

theorem C3_resolver_amended:
  "(map_of PRODUCTOS_DB (py_lower (py_strip q)) = Some p \<longrightarrow>
      find_product_fuzzy q = Some (py_lower (py_strip q), p))
   \<and> (map_of PRODUCTOS_DB (py_lower (py_strip q)) = None \<longrightarrow>
        (find_product_fuzzy q = None \<longleftrightarrow>
           (\<forall>k\<in>set (map fst PRODUCTOS_DB). ratio k (py_lower (py_strip q)) < 6 / 10))
        \<and> (find_product_fuzzy q = Some (key, p') \<longleftrightarrow>
             map_of PRODUCTOS_DB key = Some p'
             \<and> 6 / 10 \<le> ratio key (py_lower (py_strip q))
             \<and> (\<forall>k\<in>set (map fst PRODUCTOS_DB). 6 / 10 \<le> ratio k (py_lower (py_strip q)) \<longrightarrow>
                  ratio k (py_lower (py_strip q)) < ratio key (py_lower (py_strip q))
                  \<or> (ratio k (py_lower (py_strip q)) = ratio key (py_lower (py_strip q))
                      \<and> k \<le> key))))"
proof (intro conjI impI)
  assume "map_of PRODUCTOS_DB (py_lower (py_strip q)) = Some p"
  then show "find_product_fuzzy q = Some (py_lower (py_strip q), p)"
    by (simp add: find_product_fuzzy_def)
next
  let ?n = "py_lower (py_strip q)"
  let ?keys = "map fst PRODUCTOS_DB"
  assume none: "map_of PRODUCTOS_DB ?n = None"
  then have f: "find_product_fuzzy q =
      (case get_close_matches1 ?n ?keys (6 / 10) of
         [] \<Rightarrow> None
       | match # _ \<Rightarrow> Some (match, the (map_of PRODUCTOS_DB match)))"
    by (simp add: find_product_fuzzy_def Let_def)
  show "find_product_fuzzy q = None \<longleftrightarrow> (\<forall>k\<in>set ?keys. ratio k ?n < 6 / 10)"
    unfolding f using get_close_matches1_None[of ?n ?keys "6 / 10"]
    by (auto split: list.splits)
  show "find_product_fuzzy q = Some (key, p') \<longleftrightarrow>
             map_of PRODUCTOS_DB key = Some p'
             \<and> 6 / 10 \<le> ratio key ?n
             \<and> (\<forall>k\<in>set ?keys. 6 / 10 \<le> ratio k ?n \<longrightarrow>
                  ratio k ?n < ratio key ?n \<or> (ratio k ?n = ratio key ?n \<and> k \<le> key))"
    (is "?L \<longleftrightarrow> ?R")
  proof
    assume L: ?L
    then obtain rest where m: "get_close_matches1 ?n ?keys (6 / 10) = key # rest"
      unfolding f by (auto split: list.splits)
    from find_product_fuzzy_in_db[OF L] m show ?R
      using get_close_matches1_Some[of ?n ?keys "6 / 10" key rest] by simp
  next
    assume R: ?R
    then have "key \<in> set ?keys"
      by (metis map_of_SomeD fst_conv image_eqI set_map)
    with R have "get_close_matches1 ?n ?keys (6 / 10) = [key]"
      using get_close_matches1_Some[of ?n ?keys "6 / 10" key "[]"] by simp
    with R show ?L unfolding f by simp
  qed
qed

text \<open>C3, amended, for the query \<^verbatim>\<open>gam pro\<close> (a tie, won by the greater key), for a
  query that is a key up to spaces and case, and for a query that nothing resembles.\<close>

theorem C3_witness:
  "find_product_fuzzy ''gam pro'' =
     Some (''mouse gaming pro'', the (map_of PRODUCTOS_DB ''mouse gaming pro''))
   \<and> (6 / 10 :: rat) \<le> ratio ''mouse gaming pro'' ''gam pro''
   \<and> (ratio ''laptop gamer pro'' ''gam pro'' < ratio ''mouse gaming pro'' ''gam pro''
       \<or> (ratio ''laptop gamer pro'' ''gam pro'' = ratio ''mouse gaming pro'' ''gam pro''
           \<and> ''laptop gamer pro'' \<le> ''mouse gaming pro''))
   \<and> find_product_fuzzy '' Mouse Gaming PRO '' =
       Some (''mouse gaming pro'', the (map_of PRODUCTOS_DB ''mouse gaming pro''))
   \<and> find_product_fuzzy ''xyz'' = None"
proof -
  have n: "map_of PRODUCTOS_DB (py_lower (py_strip ''gam pro'')) = None"
    by (simp add: normalize_gam_pro PRODUCTOS_DB_def)
  have l: "(6 / 10 :: rat) \<le> ratio ''laptop gamer pro'' (py_lower (py_strip ''gam pro''))"
    by (simp add: normalize_gam_pro ratio_laptop_gam_pro)
  have k: "''laptop gamer pro'' \<in> set (map fst PRODUCTOS_DB)"
    by (simp add: catalog_keys)
  from C3_resolver_amended[of "''gam pro''" _ "''mouse gaming pro''"
      "the (map_of PRODUCTOS_DB ''mouse gaming pro'')"] n find_gam_pro
  have a: "6 / 10 \<le> ratio ''mouse gaming pro'' (py_lower (py_strip ''gam pro''))"
    and b: "\<forall>k\<in>set (map fst PRODUCTOS_DB). 6 / 10 \<le> ratio k (py_lower (py_strip ''gam pro'')) \<longrightarrow>
                  ratio k (py_lower (py_strip ''gam pro'')) < ratio ''mouse gaming pro'' (py_lower (py_strip ''gam pro''))
                  \<or> (ratio k (py_lower (py_strip ''gam pro'')) = ratio ''mouse gaming pro'' (py_lower (py_strip ''gam pro''))
                      \<and> k \<le> ''mouse gaming pro'')"
    by blast+
  from b k l have c: "ratio ''laptop gamer pro'' ''gam pro'' < ratio ''mouse gaming pro'' ''gam pro''
       \<or> (ratio ''laptop gamer pro'' ''gam pro'' = ratio ''mouse gaming pro'' ''gam pro''
           \<and> ''laptop gamer pro'' \<le> ''mouse gaming pro'')"
    unfolding normalize_gam_pro by blast
  have e: "map_of PRODUCTOS_DB (py_lower (py_strip '' Mouse Gaming PRO '')) =
      Some (the (map_of PRODUCTOS_DB ''mouse gaming pro''))"
    by (simp add: normalize_eval PRODUCTOS_DB_def)
  have x: "py_lower (py_strip '' Mouse Gaming PRO '') = ''mouse gaming pro''"
    by (simp add: normalize_eval)
  from C3_resolver_amended[of "'' Mouse Gaming PRO ''" "the (map_of PRODUCTOS_DB ''mouse gaming pro'')"] e
  have d: "find_product_fuzzy '' Mouse Gaming PRO '' =
       Some (''mouse gaming pro'', the (map_of PRODUCTOS_DB ''mouse gaming pro''))"
    unfolding x by blast
  from a c d find_gam_pro find_xyz show ?thesis
    unfolding normalize_gam_pro by blast
qed

text \<open>
  C4. Let the query resolve to the product \<open>p\<close>, and let \<open>already\<close> be the quantity of
  its line in the cart (0 without a line). If \<open>already + n\<close> exceeds the stock of \<open>p\<close>,
  in a reachable state or for a quantity above zero, then \<^verbatim>\<open>agregar_al_carrito\<close> returns
  the stock error, whose payload holds the stock, the quantity in the cart and the
  remaining units \<open>stock - already\<close>, and the globals (lines and discount code) are
  unchanged.
\<close>

theorem C4_stock_error:
  assumes "find_product_fuzzy producto = Some (key, p)"
    and "already = (case get_cart_item_by_product g (id_p p) of Some it \<Rightarrow> cantidad it | None \<Rightarrow> 0)"
    and "already + n > stock p"
    and "reachable g \<or> 0 < n"
  shows "agregar_al_carrito g producto n =
     ([(''status'', PStr ''error''),
       (''message'', PText (StockInsuficiente (stock p - already) (nombre p))),
       (''stock_actual'', PInt (stock p)),
       (''en_carrito'', PInt already),
       (''disponible'', PInt (stock p - already))], g)"
proof -
  have npos: "0 < n"
  proof (cases "0 < n")
    case True
    then show ?thesis .
  next
    case False
    with assms(4) have r: "reachable g" by simp
    from assms(1) have indb: "(key, p) \<in> set PRODUCTOS_DB"
      using find_product_fuzzy_in_db map_of_SomeD by fastforce
    have "already \<le> stock p"
    proof (cases "get_cart_item_by_product g (id_p p)")
      case None
      with assms(2) catalog_stock_nonneg[OF indb] show ?thesis by simp
    next
      case (Some it)
      then have "it \<in> set (items (carrito g))" "producto_id it = id_p p"
        using find_Some_props[of "\<lambda>item. producto_id item = id_p p" "items (carrito g)" it]
        by (auto simp: get_cart_item_by_product_def)
      with reachable_cart_inv[OF r] indb have "cantidad it \<le> stock p"
        unfolding cart_inv_def by blast
      with Some assms(2) show ?thesis by simp
    qed
    with assms(3) show ?thesis by simp
  qed
  with assms(1,2,3) show ?thesis
    by (simp add: agregar_al_carrito_def Let_def)
qed

text \<open>C4 with two mice in the cart and fourteen more requested of the fifteen in stock.\<close>

theorem C4_witness:
  "agregar_al_carrito
     \<lparr>carrito = \<lparr>items = [\<lparr>producto_id = ''MOU002'', item_nombre = ''Mouse Gaming Pro'',
          precio_unitario = 80, cantidad = 2, subtotal = 160\<rparr>], discount_code = None\<rparr>,
      historial_busquedas = []\<rparr> ''mouse gaming pro'' 14 =
     ([(''status'', PStr ''error''),
       (''message'', PText (StockInsuficiente 13 ''Mouse Gaming Pro'')),
       (''stock_actual'', PInt 15),
       (''en_carrito'', PInt 2),
       (''disponible'', PInt 13)],
      \<lparr>carrito = \<lparr>items = [\<lparr>producto_id = ''MOU002'', item_nombre = ''Mouse Gaming Pro'',
          precio_unitario = 80, cantidad = 2, subtotal = 160\<rparr>], discount_code = None\<rparr>,
      historial_busquedas = []\<rparr>)"
  using C4_stock_error[of "''mouse gaming pro''" "''mouse gaming pro''"
      "the (map_of PRODUCTOS_DB ''mouse gaming pro'')" 2
      "\<lparr>carrito = \<lparr>items = [\<lparr>producto_id = ''MOU002'', item_nombre = ''Mouse Gaming Pro'',
          precio_unitario = 80, cantidad = 2, subtotal = 160\<rparr>], discount_code = None\<rparr>,
      historial_busquedas = []\<rparr>" 14]
  by (simp add: find_mouse_key mouse_entry get_cart_item_by_product_def)

text \<open>
  C5. \<^verbatim>\<open>remover_del_carrito\<close> fails with the not-found error when the query does not
  resolve, and with the not-in-cart error when the resolved product has no line. When the
  product has the line \<open>item\<close>: without a quantity, or with a quantity of at least that
  of the line, the line is deleted (and, the identifiers of the lines being distinct, no
  line of the product remains); with a quantity \<open>n\<close> above zero and below that of the
  line, the quantity of the line is lowered by \<open>n\<close> and its subtotal becomes the unit
  price times the new quantity; otherwise, and so for every quantity of zero or less when
  the quantity of the line is above zero, the call fails with the validation error and
  changes nothing.
\<close>

theorem C5_remove:
  "(find_product_fuzzy producto = None \<longrightarrow>
      remover_del_carrito g producto q =
        ([(''status'', PStr ''error''),
          (''message'', PText (NoEncontradoEnCarrito producto))], g))
   \<and> (find_product_fuzzy producto = Some (key, p)
          \<and> get_cart_item_by_product g (id_p p) = None \<longrightarrow>
        remover_del_carrito g producto q =
          ([(''status'', PStr ''error''),
            (''message'', PText (NoEstaEnCarrito (nombre p)))], g))
   \<and> (find_product_fuzzy producto = Some (key, p)
          \<and> get_cart_item_by_product g (id_p p) = Some item \<longrightarrow>
        (case q of
           None \<Rightarrow>
             remover_del_carrito g producto q =
               ([(''status'', PStr ''success''),
                 (''message'', PText (RemovidoCompletamente (nombre p))),
                 (''producto_removido'', PStr (nombre p)),
                 (''cantidad_removida'', PInt (cantidad item))],
                g\<lparr>carrito := (carrito g)\<lparr>items := remove1 item (items (carrito g))\<rparr>\<rparr>)
         | Some n \<Rightarrow>
             if n \<ge> cantidad item then
               remover_del_carrito g producto q =
                 ([(''status'', PStr ''success''),
                   (''message'', PText (RemovidoCompletamente (nombre p))),
                   (''producto_removido'', PStr (nombre p)),
                   (''cantidad_removida'', PInt (cantidad item))],
                  g\<lparr>carrito := (carrito g)\<lparr>items := remove1 item (items (carrito g))\<rparr>\<rparr>)
             else if 0 < n then
               remover_del_carrito g producto q =
                 ([(''status'', PStr ''success''),
                   (''message'', PText (RemovidasUnidades n (nombre p))),
                   (''cantidad_removida'', PInt n),
                   (''cantidad_restante'', PInt (cantidad item - n))],
                  g\<lparr>carrito := (carrito g)\<lparr>items :=
                     update_first (\<lambda>it. producto_id it = id_p p)
                       (\<lambda>it. it\<lparr>cantidad := cantidad it - n,
                          subtotal := precio_unitario it * of_int (cantidad it - n)\<rparr>)
                       (items (carrito g))\<rparr>\<rparr>)
               \<and> get_cart_item_by_product (snd (remover_del_carrito g producto q)) (id_p p) =
                   Some (item\<lparr>cantidad := cantidad item - n,
                      subtotal := precio_unitario item * of_int (cantidad item - n)\<rparr>)
             else
               remover_del_carrito g producto q =
                 ([(''status'', PStr ''error''), (''message'', PText CantidadPositiva)], g)))
   \<and> (find_product_fuzzy producto = Some (key, p)
          \<and> get_cart_item_by_product g (id_p p) = Some item \<and> 0 < cantidad item
          \<and> m \<le> 0 \<longrightarrow>
        remover_del_carrito g producto (Some m) =
          ([(''status'', PStr ''error''), (''message'', PText CantidadPositiva)], g))
   \<and> (find_product_fuzzy producto = Some (key, p)
          \<and> get_cart_item_by_product g (id_p p) = Some item
          \<and> distinct (map producto_id (items (carrito g))) \<longrightarrow>
        get_cart_item_by_product
          (g\<lparr>carrito := (carrito g)\<lparr>items := remove1 item (items (carrito g))\<rparr>\<rparr>) (id_p p) = None)"
proof (intro conjI impI)
  assume "find_product_fuzzy producto = None"
  then show "remover_del_carrito g producto q =
        ([(''status'', PStr ''error''),
          (''message'', PText (NoEncontradoEnCarrito producto))], g)"
    by (simp add: remover_del_carrito_def)
next
  assume "find_product_fuzzy producto = Some (key, p) \<and> get_cart_item_by_product g (id_p p) = None"
  then show "remover_del_carrito g producto q =
          ([(''status'', PStr ''error''),
            (''message'', PText (NoEstaEnCarrito (nombre p)))], g)"
    by (simp add: remover_del_carrito_def)
next
  assume a: "find_product_fuzzy producto = Some (key, p)
          \<and> get_cart_item_by_product g (id_p p) = Some item"
  then have f: "find (\<lambda>it. producto_id it = id_p p) (items (carrito g)) = Some item"
    by (simp add: get_cart_item_by_product_def)
  have pid: "producto_id item = id_p p" using find_Some_props[OF f] by simp
  show "case q of
           None \<Rightarrow>
             remover_del_carrito g producto q =
               ([(''status'', PStr ''success''),
                 (''message'', PText (RemovidoCompletamente (nombre p))),
                 (''producto_removido'', PStr (nombre p)),
                 (''cantidad_removida'', PInt (cantidad item))],
                g\<lparr>carrito := (carrito g)\<lparr>items := remove1 item (items (carrito g))\<rparr>\<rparr>)
         | Some n \<Rightarrow>
             if n \<ge> cantidad item then
               remover_del_carrito g producto q =
                 ([(''status'', PStr ''success''),
                   (''message'', PText (RemovidoCompletamente (nombre p))),
                   (''producto_removido'', PStr (nombre p)),
                   (''cantidad_removida'', PInt (cantidad item))],
                  g\<lparr>carrito := (carrito g)\<lparr>items := remove1 item (items (carrito g))\<rparr>\<rparr>)
             else if 0 < n then
               remover_del_carrito g producto q =
                 ([(''status'', PStr ''success''),
                   (''message'', PText (RemovidasUnidades n (nombre p))),
                   (''cantidad_removida'', PInt n),
                   (''cantidad_restante'', PInt (cantidad item - n))],
                  g\<lparr>carrito := (carrito g)\<lparr>items :=
                     update_first (\<lambda>it. producto_id it = id_p p)
                       (\<lambda>it. it\<lparr>cantidad := cantidad it - n,
                          subtotal := precio_unitario it * of_int (cantidad it - n)\<rparr>)
                       (items (carrito g))\<rparr>\<rparr>)
               \<and> get_cart_item_by_product (snd (remover_del_carrito g producto q)) (id_p p) =
                   Some (item\<lparr>cantidad := cantidad item - n,
                      subtotal := precio_unitario item * of_int (cantidad item - n)\<rparr>)
             else
               remover_del_carrito g producto q =
                 ([(''status'', PStr ''error''), (''message'', PText CantidadPositiva)], g)"
  proof (cases q)
    case None
    with a show ?thesis by (simp add: remover_del_carrito_def)
  next
    case (Some n)
    have "find (\<lambda>it. producto_id it = id_p p)
            (update_first (\<lambda>it. producto_id it = id_p p)
               (\<lambda>it. it\<lparr>cantidad := cantidad it - n,
                          subtotal := precio_unitario it * of_int (cantidad it - n)\<rparr>)
               (items (carrito g))) =
          Some (item\<lparr>cantidad := cantidad item - n,
                      subtotal := precio_unitario item * of_int (cantidad item - n)\<rparr>)"
      by (rule find_update_first[OF f]) (simp add: pid)
    with Some a show ?thesis
      by (simp add: remover_del_carrito_def get_cart_item_by_product_def)
  qed
next
  assume "find_product_fuzzy producto = Some (key, p)
          \<and> get_cart_item_by_product g (id_p p) = Some item \<and> 0 < cantidad item
          \<and> m \<le> 0"
  then show "remover_del_carrito g producto (Some m) =
          ([(''status'', PStr ''error''), (''message'', PText CantidadPositiva)], g)"
    by (simp add: remover_del_carrito_def)
next
  assume a: "find_product_fuzzy producto = Some (key, p)
          \<and> get_cart_item_by_product g (id_p p) = Some item
          \<and> distinct (map producto_id (items (carrito g)))"
  then show "get_cart_item_by_product
          (g\<lparr>carrito := (carrito g)\<lparr>items := remove1 item (items (carrito g))\<rparr>\<rparr>) (id_p p) = None"
    using find_remove1_distinct[of producto_id "id_p p" "items (carrito g)" item]
    by (simp add: get_cart_item_by_product_def)
qed

text \<open>C5 on the cart with two mice (one unit removed, two removed, zero removed), on the
  empty cart, and for a query that does not resolve.\<close>

theorem C5_witness:
  "remover_del_carrito
     \<lparr>carrito = \<lparr>items = [\<lparr>producto_id = ''MOU002'', item_nombre = ''Mouse Gaming Pro'',
          precio_unitario = 80, cantidad = 2, subtotal = 160\<rparr>], discount_code = None\<rparr>,
      historial_busquedas = []\<rparr> ''mouse gaming pro'' (Some 1) =
     ([(''status'', PStr ''success''),
       (''message'', PText (RemovidasUnidades 1 ''Mouse Gaming Pro'')),
       (''cantidad_removida'', PInt 1),
       (''cantidad_restante'', PInt 1)],
      \<lparr>carrito = \<lparr>items = [\<lparr>producto_id = ''MOU002'', item_nombre = ''Mouse Gaming Pro'',
          precio_unitario = 80, cantidad = 1, subtotal = 80\<rparr>], discount_code = None\<rparr>,
      historial_busquedas = []\<rparr>)
   \<and> remover_del_carrito
     \<lparr>carrito = \<lparr>items = [\<lparr>producto_id = ''MOU002'', item_nombre = ''Mouse Gaming Pro'',
          precio_unitario = 80, cantidad = 2, subtotal = 160\<rparr>], discount_code = None\<rparr>,
      historial_busquedas = []\<rparr> ''mouse gaming pro'' (Some 2) =
     ([(''status'', PStr ''success''),
       (''message'', PText (RemovidoCompletamente ''Mouse Gaming Pro'')),
       (''producto_removido'', PStr ''Mouse Gaming Pro''),
       (''cantidad_removida'', PInt 2)],
      \<lparr>carrito = \<lparr>items = [], discount_code = None\<rparr>, historial_busquedas = []\<rparr>)
   \<and> remover_del_carrito
     \<lparr>carrito = \<lparr>items = [\<lparr>producto_id = ''MOU002'', item_nombre = ''Mouse Gaming Pro'',
          precio_unitario = 80, cantidad = 2, subtotal = 160\<rparr>], discount_code = None\<rparr>,
      historial_busquedas = []\<rparr> ''mouse gaming pro'' (Some 0) =
     ([(''status'', PStr ''error''), (''message'', PText CantidadPositiva)],
      \<lparr>carrito = \<lparr>items = [\<lparr>producto_id = ''MOU002'', item_nombre = ''Mouse Gaming Pro'',
          precio_unitario = 80, cantidad = 2, subtotal = 160\<rparr>], discount_code = None\<rparr>,
      historial_busquedas = []\<rparr>)
   \<and> remover_del_carrito initial_globals ''mouse gaming pro'' None =
     ([(''status'', PStr ''error''), (''message'', PText (NoEstaEnCarrito ''Mouse Gaming Pro''))],
      initial_globals)
   \<and> remover_del_carrito initial_globals ''xyz'' None =
     ([(''status'', PStr ''error''), (''message'', PText (NoEncontradoEnCarrito ''xyz''))],
      initial_globals)"
proof -
  let ?G = "\<lparr>carrito = \<lparr>items = [\<lparr>producto_id = ''MOU002'', item_nombre = ''Mouse Gaming Pro'',
          precio_unitario = 80, cantidad = 2, subtotal = 160\<rparr>], discount_code = None\<rparr>,
      historial_busquedas = []\<rparr>"
  let ?q = "''mouse gaming pro''"
  let ?p = "the (map_of PRODUCTOS_DB ''mouse gaming pro'')"
  let ?item = "\<lparr>producto_id = ''MOU002'', item_nombre = ''Mouse Gaming Pro'',
          precio_unitario = 80, cantidad = 2, subtotal = 160\<rparr>"
  have g: "get_cart_item_by_product ?G (id_p ?p) = Some ?item"
    by (simp add: get_cart_item_by_product_def mouse_entry)
  have e: "get_cart_item_by_product initial_globals (id_p ?p) = None"
    by (simp add: get_cart_item_by_product_def initial_globals_def)
  have 1: "remover_del_carrito ?G ?q (Some 1) =
     ([(''status'', PStr ''success''),
       (''message'', PText (RemovidasUnidades 1 ''Mouse Gaming Pro'')),
       (''cantidad_removida'', PInt 1),
       (''cantidad_restante'', PInt 1)],
      \<lparr>carrito = \<lparr>items = [\<lparr>producto_id = ''MOU002'', item_nombre = ''Mouse Gaming Pro'',
          precio_unitario = 80, cantidad = 1, subtotal = 80\<rparr>], discount_code = None\<rparr>,
      historial_busquedas = []\<rparr>)"
    using C5_remove[where producto = ?q and g = ?G and q = "Some 1" and key = ?q and p = ?p and item = ?item] find_mouse_key g by (simp add: mouse_entry)
  have 2: "remover_del_carrito ?G ?q (Some 2) =
     ([(''status'', PStr ''success''),
       (''message'', PText (RemovidoCompletamente ''Mouse Gaming Pro'')),
       (''producto_removido'', PStr ''Mouse Gaming Pro''),
       (''cantidad_removida'', PInt 2)],
      \<lparr>carrito = \<lparr>items = [], discount_code = None\<rparr>, historial_busquedas = []\<rparr>)"
    using C5_remove[where producto = ?q and g = ?G and q = "Some 2" and key = ?q and p = ?p and item = ?item] find_mouse_key g by (simp add: mouse_entry)
  have 3: "remover_del_carrito ?G ?q (Some 0) =
     ([(''status'', PStr ''error''), (''message'', PText CantidadPositiva)], ?G)"
    using C5_remove[where producto = ?q and g = ?G and m = 0 and key = ?q and p = ?p and item = ?item] find_mouse_key g by (simp add: mouse_entry)
  have 4: "remover_del_carrito initial_globals ?q None =
     ([(''status'', PStr ''error''), (''message'', PText (NoEstaEnCarrito ''Mouse Gaming Pro''))],
      initial_globals)"
    using C5_remove[where producto = ?q and g = initial_globals and q = None and key = ?q and p = ?p] find_mouse_key e by (simp add: mouse_entry)
  have 5: "remover_del_carrito initial_globals ''xyz'' None =
     ([(''status'', PStr ''error''), (''message'', PText (NoEncontradoEnCarrito ''xyz''))],
      initial_globals)"
    using C5_remove[where producto = "''xyz''" and g = initial_globals and q = None] find_xyz by simp
  from 1 2 3 4 5 show ?thesis by blast
qed

text \<open>
  C6. \<^verbatim>\<open>aplicar_descuento\<close> fails with the empty-cart error when the cart has no lines,
  whatever the code. Otherwise the code is stripped and put in upper case; when the result
  is not in the table, the call fails with the invalid-code error, whose payload lists the
  codes of the table; when it is, with the rate \<open>rate\<close>, the discount code of the cart
  becomes the normalised code, and the result is a success that reports the discount
  amount (the subtotal times the rate) and the new total.
\<close>

theorem C6_apply_discount:
  "(items (carrito g) = [] \<longrightarrow>
      aplicar_descuento g codigo =
        ([(''status'', PStr ''error''), (''message'', PText CarritoVacioDescuento)], g))
   \<and> (items (carrito g) \<noteq> [] \<and> map_of DISCOUNT_CODES (py_upper (py_strip codigo)) = None \<longrightarrow>
      aplicar_descuento g codigo =
        ([(''status'', PStr ''error''),
          (''message'', PText (CodigoNoValido codigo)),
          (''codigos_disponibles'', PList [PStr ''WELCOME10'', PStr ''SAVE20'', PStr ''VIP30''])], g))
   \<and> (items (carrito g) \<noteq> []
          \<and> map_of DISCOUNT_CODES (py_upper (py_strip codigo)) = Some rate \<longrightarrow>
        snd (aplicar_descuento g codigo) =
          g\<lparr>carrito := (carrito g)\<lparr>discount_code := Some (py_upper (py_strip codigo))\<rparr>\<rparr>
        \<and> map_of (fst (aplicar_descuento g codigo)) ''status'' = Some (PStr ''success'')
        \<and> map_of (fst (aplicar_descuento g codigo)) ''descuento'' = Some (PDict
             [(''porcentaje'', PStr (str_int (py_int (rate * 100)) @ ''%'')),
              (''monto'', PStr (format_price (get_subtotal (carrito g) * rate))),
              (''subtotal_original'', PStr (format_price (get_subtotal (carrito g)))),
              (''total_con_descuento'', PStr (format_price
                 (get_total (carrito (snd (aplicar_descuento g codigo))))))])
        \<and> get_discount_amount (carrito (snd (aplicar_descuento g codigo))) =
            get_subtotal (carrito g) * rate)"
proof (intro conjI impI)
  assume "items (carrito g) = []"
  then show "aplicar_descuento g codigo =
        ([(''status'', PStr ''error''), (''message'', PText CarritoVacioDescuento)], g)"
    by (simp add: aplicar_descuento_def)
next
  assume "items (carrito g) \<noteq> [] \<and> map_of DISCOUNT_CODES (py_upper (py_strip codigo)) = None"
  then show "aplicar_descuento g codigo =
        ([(''status'', PStr ''error''),
          (''message'', PText (CodigoNoValido codigo)),
          (''codigos_disponibles'', PList [PStr ''WELCOME10'', PStr ''SAVE20'', PStr ''VIP30''])], g)"
    by (simp add: aplicar_descuento_def Let_def) (simp add: DISCOUNT_CODES_def)
next
  assume a: "items (carrito g) \<noteq> [] \<and> map_of DISCOUNT_CODES (py_upper (py_strip codigo)) = Some rate"
  let ?g1 = "g\<lparr>carrito := (carrito g)\<lparr>discount_code := Some (py_upper (py_strip codigo))\<rparr>\<rparr>"
  have s: "snd (aplicar_descuento g codigo) = ?g1"
    using a by (simp add: aplicar_descuento_def Let_def)
  have d: "get_discount_amount (carrito ?g1) = get_subtotal (carrito g) * rate"
    using a discount_amount_valid[of "carrito ?g1" "py_upper (py_strip codigo)" rate]
    by (simp add: get_subtotal_def)
  show "snd (aplicar_descuento g codigo) = ?g1" by (rule s)
  show "map_of (fst (aplicar_descuento g codigo)) ''status'' = Some (PStr ''success'')"
    using a by (simp add: aplicar_descuento_def Let_def)
  show "map_of (fst (aplicar_descuento g codigo)) ''descuento'' = Some (PDict
             [(''porcentaje'', PStr (str_int (py_int (rate * 100)) @ ''%'')),
              (''monto'', PStr (format_price (get_subtotal (carrito g) * rate))),
              (''subtotal_original'', PStr (format_price (get_subtotal (carrito g)))),
              (''total_con_descuento'', PStr (format_price
                 (get_total (carrito (snd (aplicar_descuento g codigo))))))])"
    unfolding s using a d by (simp add: aplicar_descuento_def Let_def get_subtotal_def)
  show "get_discount_amount (carrito (snd (aplicar_descuento g codigo))) =
            get_subtotal (carrito g) * rate"
    unfolding s by (rule d)
qed

text \<open>C6 on the empty cart, and on the cart with two mice for an unknown code and for
  the code \<^verbatim>\<open>vip30\<close> between spaces.\<close>

theorem C6_witness:
  "aplicar_descuento initial_globals '' vip30 '' =
     ([(''status'', PStr ''error''), (''message'', PText CarritoVacioDescuento)], initial_globals)
   \<and> aplicar_descuento
     \<lparr>carrito = \<lparr>items = [\<lparr>producto_id = ''MOU002'', item_nombre = ''Mouse Gaming Pro'',
          precio_unitario = 80, cantidad = 2, subtotal = 160\<rparr>], discount_code = None\<rparr>,
      historial_busquedas = []\<rparr> ''nope'' =
     ([(''status'', PStr ''error''),
       (''message'', PText (CodigoNoValido ''nope'')),
       (''codigos_disponibles'', PList [PStr ''WELCOME10'', PStr ''SAVE20'', PStr ''VIP30''])],
      \<lparr>carrito = \<lparr>items = [\<lparr>producto_id = ''MOU002'', item_nombre = ''Mouse Gaming Pro'',
          precio_unitario = 80, cantidad = 2, subtotal = 160\<rparr>], discount_code = None\<rparr>,
      historial_busquedas = []\<rparr>)
   \<and> snd (aplicar_descuento
     \<lparr>carrito = \<lparr>items = [\<lparr>producto_id = ''MOU002'', item_nombre = ''Mouse Gaming Pro'',
          precio_unitario = 80, cantidad = 2, subtotal = 160\<rparr>], discount_code = None\<rparr>,
      historial_busquedas = []\<rparr> '' vip30 '') =
      \<lparr>carrito = \<lparr>items = [\<lparr>producto_id = ''MOU002'', item_nombre = ''Mouse Gaming Pro'',
          precio_unitario = 80, cantidad = 2, subtotal = 160\<rparr>], discount_code = Some ''VIP30''\<rparr>,
      historial_busquedas = []\<rparr>
   \<and> map_of (fst (aplicar_descuento
     \<lparr>carrito = \<lparr>items = [\<lparr>producto_id = ''MOU002'', item_nombre = ''Mouse Gaming Pro'',
          precio_unitario = 80, cantidad = 2, subtotal = 160\<rparr>], discount_code = None\<rparr>,
      historial_busquedas = []\<rparr> '' vip30 '')) ''descuento'' = Some (PDict
        [(''porcentaje'', PStr ''30%''),
         (''monto'', PStr ''$48.00''),
         (''subtotal_original'', PStr ''$160.00''),
         (''total_con_descuento'', PStr ''$120.96'')])"
proof -
  let ?G = "\<lparr>carrito = \<lparr>items = [\<lparr>producto_id = ''MOU002'', item_nombre = ''Mouse Gaming Pro'',
          precio_unitario = 80, cantidad = 2, subtotal = 160\<rparr>], discount_code = None\<rparr>,
      historial_busquedas = []\<rparr>"
  have 1: "aplicar_descuento initial_globals '' vip30 '' =
     ([(''status'', PStr ''error''), (''message'', PText CarritoVacioDescuento)], initial_globals)"
    using C6_apply_discount[of initial_globals "'' vip30 ''"] by (simp add: initial_globals_def)
  have 2: "aplicar_descuento ?G ''nope'' =
     ([(''status'', PStr ''error''),
       (''message'', PText (CodigoNoValido ''nope'')),
       (''codigos_disponibles'', PList [PStr ''WELCOME10'', PStr ''SAVE20'', PStr ''VIP30''])], ?G)"
    using C6_apply_discount[of ?G "''nope''"] by (simp add: normalize_nope DISCOUNT_CODES_def)
  have r: "map_of DISCOUNT_CODES (py_upper (py_strip '' vip30 '')) = Some (30 / 100)"
    by (simp add: normalize_vip30 DISCOUNT_CODES_def)
  have 3: "snd (aplicar_descuento ?G '' vip30 '') = ?G\<lparr>carrito := (carrito ?G)\<lparr>discount_code := Some ''VIP30''\<rparr>\<rparr>"
    using C6_apply_discount[of ?G "'' vip30 ''" "30 / 100"] r by (simp add: normalize_vip30)
  have t: "get_total (carrito (?G\<lparr>carrito := (carrito ?G)\<lparr>discount_code := Some ''VIP30''\<rparr>\<rparr>)) = 3024 / 25"
    by (simp add: pricing_defs DISCOUNT_CODES_def)
  have 4: "map_of (fst (aplicar_descuento ?G '' vip30 '')) ''descuento'' = Some (PDict
        [(''porcentaje'', PStr ''30%''),
         (''monto'', PStr ''$48.00''),
         (''subtotal_original'', PStr ''$160.00''),
         (''total_con_descuento'', PStr ''$120.96'')])"
    using C6_apply_discount[of ?G "'' vip30 ''" "30 / 100"] r unfolding 3 t
    by (simp add: get_subtotal_def py_int_def str_int_30 format_values)
  from 1 2 3 4 show ?thesis by simp
qed

text \<open>
  C7. In every state that the nine tools reach from the initial globals, every line of the
  cart has a quantity above zero, no two lines have the same product identifier, every
  line's subtotal is its unit price times its quantity, and the quantity of a line does
  not exceed the stock of the product of the catalogue that it names.
\<close>

theorem C7_reachable_invariant:
  assumes "reachable g"
  shows "(\<forall>item\<in>set (items (carrito g)). 0 < cantidad item)
    \<and> distinct (map producto_id (items (carrito g)))
    \<and> (\<forall>item\<in>set (items (carrito g)).
          subtotal item = precio_unitario item * of_int (cantidad item))
    \<and> (\<forall>(key, p)\<in>set PRODUCTOS_DB. \<forall>item\<in>set (items (carrito g)).
          producto_id item = id_p p \<longrightarrow> cantidad item \<le> stock p)"
  using reachable_cart_inv[OF assms] unfolding cart_inv_def by blast

text \<open>C7 at the state reached by adding two units of "Mouse Gaming Pro".\<close>

theorem C7_witness:
  "reachable (snd (run_call initial_globals (Agregar ''Mouse Gaming Pro'' (Some 2))))
   \<and> items (carrito (snd (run_call initial_globals (Agregar ''Mouse Gaming Pro'' (Some 2))))) =
       [\<lparr>producto_id = ''MOU002'', item_nombre = ''Mouse Gaming Pro'',
         precio_unitario = 80, cantidad = 2, subtotal = 160\<rparr>]
   \<and> list_all (\<lambda>item. 0 < cantidad item
         \<and> subtotal item = precio_unitario item * of_int (cantidad item)
         \<and> cantidad item \<le> stock (the (map_of PRODUCTOS_DB ''mouse gaming pro'')))
       (items (carrito (snd (run_call initial_globals (Agregar ''Mouse Gaming Pro'' (Some 2))))))
   \<and> distinct (map producto_id
       (items (carrito (snd (run_call initial_globals (Agregar ''Mouse Gaming Pro'' (Some 2)))))))"
proof -
  have r: "reachable (snd (run_call initial_globals (Agregar ''Mouse Gaming Pro'' (Some 2))))"
    by (rule reachable.step[OF reachable.start])
  have m: "(''mouse gaming pro'', the (map_of PRODUCTOS_DB ''mouse gaming pro'')) \<in> set PRODUCTOS_DB"
    by (simp add: mouse_entry) (simp add: PRODUCTOS_DB_def)
  from C7_reachable_invariant[OF r] m
  have "\<forall>item\<in>set (items (carrito (snd (run_call initial_globals
            (Agregar ''Mouse Gaming Pro'' (Some 2)))))).
          0 < cantidad item
          \<and> subtotal item = precio_unitario item * of_int (cantidad item)
          \<and> (producto_id item = id_p (the (map_of PRODUCTOS_DB ''mouse gaming pro''))
               \<longrightarrow> cantidad item \<le> stock (the (map_of PRODUCTOS_DB ''mouse gaming pro'')))"
    and d: "distinct (map producto_id (items (carrito (snd (run_call initial_globals
            (Agregar ''Mouse Gaming Pro'' (Some 2)))))))"
    by blast+
  then have l: "list_all (\<lambda>item. 0 < cantidad item
         \<and> subtotal item = precio_unitario item * of_int (cantidad item)
         \<and> cantidad item \<le> stock (the (map_of PRODUCTOS_DB ''mouse gaming pro'')))
       (items (carrito (snd (run_call initial_globals (Agregar ''Mouse Gaming Pro'' (Some 2))))))"
    unfolding two_mice_state by (simp add: mouse_entry)
  have i: "items (carrito (snd (run_call initial_globals (Agregar ''Mouse Gaming Pro'' (Some 2))))) =
       [\<lparr>producto_id = ''MOU002'', item_nombre = ''Mouse Gaming Pro'',
         precio_unitario = 80, cantidad = 2, subtotal = 160\<rparr>]"
    unfolding two_mice_state by simp
  from r i l d show ?thesis by blast
qed



text \<open>
  C9, as stated, fails: after one search, \<^verbatim>\<open>mostrar_historial_busquedas\<close> succeeds with a
  result that has no \<^verbatim>\<open>message\<close> field.
\<close>

theorem C9_history_counterexample:
  "map_of (fst (run_call (snd (run_call initial_globals (Buscar ''mouse''))) Historial)) ''status''
     = Some (PStr ''success'')
   \<and> map_of (fst (run_call (snd (run_call initial_globals (Buscar ''mouse''))) Historial)) ''message''
     = None"
  by (simp add: buscar_snd mostrar_historial_busquedas_def)

text \<open>
  C9, amended. The result of every tool, on every input and in every state, has a
  \<^verbatim>\<open>status\<close> field whose value is one of \<^verbatim>\<open>success\<close>, \<^verbatim>\<open>error\<close>, \<^verbatim>\<open>empty\<close> and
  \<^verbatim>\<open>not_found\<close>. It has a \<^verbatim>\<open>message\<close> field holding a text whenever the status is not
  \<^verbatim>\<open>success\<close>, and in every result of the search, of adding, of applying a discount, of
  removing and of emptying the cart.
\<close>

theorem C9_status_and_message:
  "has_status (fst (run_call g c))
   \<and> (map_of (fst (run_call g c)) ''status'' \<noteq> Some (PStr ''success'') \<longrightarrow>
        has_message (fst (run_call g c)))
   \<and> has_message (fst (buscar_producto_por_nombre g q))
   \<and> has_message (fst (agregar_al_carrito g p n))
   \<and> has_message (fst (aplicar_descuento g code))
   \<and> has_message (fst (remover_del_carrito g p k))
   \<and> has_message (fst (vaciar_carrito g))"
proof -
  have "has_status (fst (run_call g c))
   \<and> (map_of (fst (run_call g c)) ''status'' \<noteq> Some (PStr ''success'') \<longrightarrow>
        has_message (fst (run_call g c)))"
  proof (cases c)
    case (Buscar x)
    then show ?thesis using status_buscar[of g x] by simp
  next
    case (Agregar x y)
    then show ?thesis using status_agregar[of g x] by simp
  next
    case Ver
    then show ?thesis using status_ver[of g] by simp
  next
    case (Descuento x)
    then show ?thesis using status_descuento[of g x] by simp
  next
    case (Remover x y)
    then show ?thesis using status_remover[of g x y] by simp
  next
    case Vaciar
    then show ?thesis using status_vaciar[of g] by simp
  next
    case Total
    then show ?thesis using status_total[of g] by simp
  next
    case (Recomendar x)
    then show ?thesis using status_recomendar[of g x] by simp
  next
    case Historial
    then show ?thesis using status_historial[of g] by simp
  qed
  then show ?thesis
    using status_buscar[of g q] status_agregar[of g p n] status_descuento[of g code]
      status_remover[of g p k] status_vaciar[of g] by simp
qed

text \<open>C9 for a call that fails: adding zero units.\<close>

theorem C9_witness:
  "map_of (fst (run_call initial_globals (Agregar ''mouse'' (Some 0)))) ''status'' = Some (PStr ''error'')
   \<and> has_status (fst (run_call initial_globals (Agregar ''mouse'' (Some 0))))
   \<and> has_message (fst (run_call initial_globals (Agregar ''mouse'' (Some 0))))"
proof -
  have "map_of (fst (run_call initial_globals (Agregar ''mouse'' (Some 0)))) ''status'' = Some (PStr ''error'')"
    by (simp add: agregar_al_carrito_def)
  with C9_status_and_message[of initial_globals "Agregar ''mouse'' (Some 0)"] show ?thesis by simp
qed

text \<open>
  C10. \<^verbatim>\<open>remover_del_carrito\<close> never changes the discount code of the cart, and neither
  does \<^verbatim>\<open>agregar_al_carrito\<close>. So when the cart has a code of the table, the cart after
  a removal (also of its last line) and the cart after a later addition are discounted at
  the rate of that code, although \<^verbatim>\<open>aplicar_descuento\<close> refuses a cart without lines.
\<close>

theorem C10_remove_keeps_discount_code:
  "discount_code (carrito (snd (remover_del_carrito g producto q))) = discount_code (carrito g)
   \<and> discount_code (carrito (snd (agregar_al_carrito g producto' n))) = discount_code (carrito g)
   \<and> (discount_code (carrito g) = Some code \<and> map_of DISCOUNT_CODES code = Some rate \<longrightarrow>
        get_discount_amount (carrito (snd (remover_del_carrito g producto q))) =
          get_subtotal (carrito (snd (remover_del_carrito g producto q))) * rate
        \<and> get_discount_amount (carrito (snd (agregar_al_carrito g producto' n))) =
          get_subtotal (carrito (snd (agregar_al_carrito g producto' n))) * rate)
   \<and> (items (carrito g) = [] \<longrightarrow>
        aplicar_descuento g codigo =
          ([(''status'', PStr ''error''), (''message'', PText CarritoVacioDescuento)], g))"
proof (intro conjI impI)
  show "discount_code (carrito (snd (remover_del_carrito g producto q))) = discount_code (carrito g)"
    by (rule remover_discount_code)
  show "discount_code (carrito (snd (agregar_al_carrito g producto' n))) = discount_code (carrito g)"
    by (rule agregar_discount_code)
next
  assume a: "discount_code (carrito g) = Some code \<and> map_of DISCOUNT_CODES code = Some rate"
  show "get_discount_amount (carrito (snd (remover_del_carrito g producto q))) =
          get_subtotal (carrito (snd (remover_del_carrito g producto q))) * rate"
    using a by (intro discount_amount_valid[of _ code]) (simp_all add: remover_discount_code)
  show "get_discount_amount (carrito (snd (agregar_al_carrito g producto' n))) =
          get_subtotal (carrito (snd (agregar_al_carrito g producto' n))) * rate"
    using a by (intro discount_amount_valid[of _ code]) (simp_all add: agregar_discount_code)
next
  assume "items (carrito g) = []"
  then show "aplicar_descuento g codigo =
          ([(''status'', PStr ''error''), (''message'', PText CarritoVacioDescuento)], g)"
    by (simp add: aplicar_descuento_def)
qed

text \<open>C10 in the scenario of the claim: the cart holds two mice under the code VIP30; the
  line is removed, the emptied cart keeps the code and refuses to apply a code; two mice
  added again are discounted by 30 per cent.\<close>

theorem C10_witness:
  "snd (remover_del_carrito
     \<lparr>carrito = \<lparr>items = [\<lparr>producto_id = ''MOU002'', item_nombre = ''Mouse Gaming Pro'',
          precio_unitario = 80, cantidad = 2, subtotal = 160\<rparr>], discount_code = Some ''VIP30''\<rparr>,
      historial_busquedas = []\<rparr> ''mouse gaming pro'' None) =
     \<lparr>carrito = \<lparr>items = [], discount_code = Some ''VIP30''\<rparr>, historial_busquedas = []\<rparr>
   \<and> aplicar_descuento
       \<lparr>carrito = \<lparr>items = [], discount_code = Some ''VIP30''\<rparr>, historial_busquedas = []\<rparr> ''VIP30'' =
     ([(''status'', PStr ''error''), (''message'', PText CarritoVacioDescuento)],
      \<lparr>carrito = \<lparr>items = [], discount_code = Some ''VIP30''\<rparr>, historial_busquedas = []\<rparr>)
   \<and> get_discount_amount (carrito (snd (agregar_al_carrito
       \<lparr>carrito = \<lparr>items = [], discount_code = Some ''VIP30''\<rparr>, historial_busquedas = []\<rparr>
       ''Mouse Gaming Pro'' 2))) = 48"
proof -
  let ?G1 = "\<lparr>carrito = \<lparr>items = [\<lparr>producto_id = ''MOU002'', item_nombre = ''Mouse Gaming Pro'',
          precio_unitario = 80, cantidad = 2, subtotal = 160\<rparr>], discount_code = Some ''VIP30''\<rparr>,
      historial_busquedas = []\<rparr>"
  let ?G2 = "\<lparr>carrito = \<lparr>items = [], discount_code = Some ''VIP30''\<rparr>, historial_busquedas = []\<rparr>"
  have r: "map_of DISCOUNT_CODES ''VIP30'' = Some (30 / 100)"
    by (simp add: DISCOUNT_CODES_def)
  have i: "items (carrito (snd (remover_del_carrito ?G1 ''mouse gaming pro'' None))) = []"
    by (simp add: remover_del_carrito_def find_mouse_key mouse_entry get_cart_item_by_product_def)
  have h: "historial_busquedas (snd (remover_del_carrito ?G1 ''mouse gaming pro'' None)) = []"
    by (simp add: remover_del_carrito_def find_mouse_key mouse_entry get_cart_item_by_product_def)
  have 1: "snd (remover_del_carrito ?G1 ''mouse gaming pro'' None) = ?G2"
    using C10_remove_keeps_discount_code[where g = ?G1 and producto = "''mouse gaming pro''" and q = None] i h
    by (cases "snd (remover_del_carrito ?G1 ''mouse gaming pro'' None)",
        cases "carrito (snd (remover_del_carrito ?G1 ''mouse gaming pro'' None))") simp
  have 2: "aplicar_descuento ?G2 ''VIP30'' =
     ([(''status'', PStr ''error''), (''message'', PText CarritoVacioDescuento)], ?G2)"
    using C10_remove_keeps_discount_code[where g = ?G2 and codigo = "''VIP30''"] by simp
  have s: "get_subtotal (carrito (snd (agregar_al_carrito ?G2 ''Mouse Gaming Pro'' 2))) = 160"
    using add_two_mice[where g = ?G2 and dc = "Some ''VIP30''"] by (simp add: get_subtotal_def)
  have 3: "get_discount_amount (carrito (snd (agregar_al_carrito ?G2 ''Mouse Gaming Pro'' 2))) = 48"
    using C10_remove_keeps_discount_code[where g = ?G2 and code = "''VIP30''" and rate = "30 / 100"
        and producto' = "''Mouse Gaming Pro''" and n = 2] r s
    by simp
  from 1 2 3 show ?thesis by simp
qed

end
